theory Spec2Isabelle
  imports Main "HOL-Library.Char_ord" "HOL-Library.List_Lexorder" "HOL-Library.Product_Lexorder"
begin

section \<open>The job scheduler of internal/server/singleprocess/state/job.go\<close>

text \<open>
  The embedding follows job.go function by function. The server state is passed explicitly:
  every verb takes the state (and the reading of the clock it makes) and returns its
  result together with the state it leaves behind. One verb runs at a time; what another
  caller could do between the two transactions of \<open>JobAssignForRunner\<close> is not modelled.

  \<^item> The bolt bucket \<open>jobs\<close> is a map from job id to the persisted record. A read of a key
    that is absent fails; puts succeed. The bolt transactions of the verbs begin; \<open>JobList\<close>
    alone takes the outcome of each begin as an input, since what it returns depends on it.
  \<^item> The memdb table \<open>jobs\<close> is the list of index records in the order of the primary
    index (by id). memdb stores the pointers it is given; job.go assigns to the fields of
    the record \<open>txn.First\<close> returns, so a field assignment is visible in the table at once
    and is not undone when the transaction aborts. Table membership and the scope tracker
    are transactional. Queries and inserts on the table succeed.
  \<^item> Timers are the timers of the Go runtime: \<open>time.AfterFunc\<close> allocates a handle, the
    \<open>StateTimer\<close> field holds a handle or nil, \<open>Stop\<close> and \<open>Reset\<close> act on the handle.
    Arming a timer is not undone by an abort.
  \<^item> Times are nanoseconds since the Unix epoch, so \<open>ptypes.TimestampProto\<close> never fails
    and the panics guarding it are unreachable; \<open>ptypes.Timestamp\<close> fails on nil only.
    A verb reads the clock once.
\<close>

subsection \<open>Protobuf messages and errors\<close>

datatype Job_State = Job_UNKNOWN | Job_QUEUED | Job_WAITING | Job_RUNNING | Job_ERROR | Job_SUCCESS

fun Job_State_String :: "Job_State \<Rightarrow> string" where
  "Job_State_String Job_UNKNOWN = ''UNKNOWN''"
| "Job_State_String Job_QUEUED = ''QUEUED''"
| "Job_State_String Job_WAITING = ''WAITING''"
| "Job_State_String Job_RUNNING = ''RUNNING''"
| "Job_State_String Job_ERROR = ''ERROR''"
| "Job_State_String Job_SUCCESS = ''SUCCESS''"

text \<open>
  The integer an \<open>IntFieldIndex\<close> on \<open>State\<close> sorts by. The enum is generated code outside
  job.go; only the place of QUEUED matters below, since the candidate loops skip every
  record that is not QUEUED.
\<close>

fun Job_State_num :: "Job_State \<Rightarrow> nat" where
  "Job_State_num Job_UNKNOWN = 0"
| "Job_State_num Job_QUEUED = 1"
| "Job_State_num Job_WAITING = 2"
| "Job_State_num Job_RUNNING = 3"
| "Job_State_num Job_ERROR = 4"
| "Job_State_num Job_SUCCESS = 5"

datatype codes = NotFound | FailedPrecondition | InvalidArgument | Canceled | Unknown

text \<open>
  A Go \<open>error\<close>: built by \<open>status.Errorf\<close> (it carries a status code) or by \<open>fmt.Errorf\<close>
  (it carries none).
\<close>

datatype go_error = status_Errorf codes string | fmt_Errorf string

record Status =
  Code :: codes
  Message :: string

text \<open>\<open>status.FromError\<close> followed by \<open>Proto\<close>: an error without a status has code Unknown.\<close>

fun status_FromError :: "go_error \<Rightarrow> Status" where
  "status_FromError (status_Errorf c m) = \<lparr>Code = c, Message = m\<rparr>"
| "status_FromError (fmt_Errorf m) = \<lparr>Code = Unknown, Message = m\<rparr>"

definition status_Code :: "go_error \<Rightarrow> codes" where
  "status_Code e = Code (status_FromError e)"

type_synonym time = nat

type_synonym Ref_Application = "string \<times> string"

type_synonym Ref_Workspace = string

datatype Ref_Runner_Target = Ref_Runner_Any | Ref_Runner_Id string

text \<open>\<open>Target\<close> is a oneof: nil when no variant is set.\<close>

record Ref_Runner =
  Target :: "Ref_Runner_Target option"

text \<open>
  \<open>pb.Job\<close>. Pointer fields are options (None is nil). \<open>Operation\<close> is a oneof whose
  payload the scheduler never reads: its variant tag and the payload.
\<close>

record pbJob =
  Id :: string
  Application :: "Ref_Application option"
  Workspace :: "Ref_Workspace option"
  TargetRunner :: "Ref_Runner option"
  Operation :: "(nat \<times> string) option"
  State :: Job_State
  QueueTime :: "time option"
  AssignTime :: "time option"
  AckTime :: "time option"
  CompleteTime :: "time option"
  CancelTime :: "time option"
  ExpireTime :: "time option"
  Result :: "string option"
  Error :: "Status option"

text \<open>The zero value of \<open>pb.Job\<close>: what \<open>var result pb.Job\<close> declares.\<close>

definition pbJob_zero :: pbJob where
  "pbJob_zero = \<lparr>Id = [], Application = None, Workspace = None, TargetRunner = None,
     Operation = None, State = Job_UNKNOWN, QueueTime = None, AssignTime = None,
     AckTime = None, CompleteTime = None, CancelTime = None, ExpireTime = None,
     Result = None, Error = None\<rparr>"

subsection \<open>The index record, the exported job and the server state\<close>

record jobIndex =
  Id :: string
  OpType :: "nat option"
  Application :: "Ref_Application option"
  Workspace :: "Ref_Workspace option"
  QueueTime :: time
  TargetAny :: bool
  TargetRunnerId :: string
  State :: Job_State
  StateTimer :: "nat option"
  OutputBuffer :: "string list option"

record Job =
  Job :: pbJob
  OutputBuffer :: "string list option"
  Blocked :: bool

record Runner =
  Id :: string
  ByIdOnly :: bool

text \<open>What a timer runs when it fires: the three closures job.go hands to \<open>time.AfterFunc\<close>.\<close>

datatype callback = CB_JobAck string bool | CB_JobCancel string bool | CB_JobExpire string

record timer =
  Callback :: callback
  Deadline :: time
  Active :: bool

type_synonym scope = "Ref_Application option \<times> Ref_Workspace option"

record State =
  db :: "string \<rightharpoonup> pbJob"
  inmem :: "jobIndex list"
  assigned :: "scope \<rightharpoonup> string"
  timers :: "nat \<rightharpoonup> timer"
  nextTimer :: nat

definition jobWaitingTimeout :: nat where
  "jobWaitingTimeout = 2 * 60 * 1000000000"

definition jobHeartbeatTimeout :: nat where
  "jobHeartbeatTimeout = 2 * 60 * 1000000000"

subsection \<open>Timers\<close>

definition time_AfterFunc :: "time \<Rightarrow> nat \<Rightarrow> callback \<Rightarrow> State \<Rightarrow> nat \<times> State" where
  "time_AfterFunc now d cb s =
     (nextTimer s,
      s\<lparr>timers := (timers s)(nextTimer s \<mapsto> \<lparr>Callback = cb, Deadline = now + d, Active = True\<rparr>),
        nextTimer := Suc (nextTimer s)\<rparr>)"

definition Timer_Stop :: "nat \<Rightarrow> State \<Rightarrow> State" where
  "Timer_Stop h s =
     (case timers s h of
        None \<Rightarrow> s
      | Some t \<Rightarrow> s\<lparr>timers := (timers s)(h \<mapsto> t\<lparr>Active := False\<rparr>)\<rparr>)"

definition Timer_Reset :: "time \<Rightarrow> nat \<Rightarrow> nat \<Rightarrow> State \<Rightarrow> State" where
  "Timer_Reset now h d s =
     (case timers s h of
        None \<Rightarrow> s
      | Some t \<Rightarrow> s\<lparr>timers := (timers s)(h \<mapsto> t\<lparr>Deadline := now + d, Active := True\<rparr>)\<rparr>)"

subsection \<open>The memdb table\<close>

definition txn_First :: "State \<Rightarrow> string \<Rightarrow> jobIndex option" where
  "txn_First s i = find (\<lambda>j. jobIndex.Id j = i) (inmem s)"

text \<open>
  The record of the id of \<open>j\<close> becomes \<open>j\<close>; the other records stay.
\<close>

definition replace_by_id :: "jobIndex \<Rightarrow> jobIndex list \<Rightarrow> jobIndex list" where
  "replace_by_id j xs = map (\<lambda>x. if jobIndex.Id x = jobIndex.Id j then j else x) xs"

text \<open>
  \<open>txn.Insert\<close>: the record replaces the one of the same id, or enters the table at its
  place in the order of ids.
\<close>

definition insert_by_id :: "jobIndex \<Rightarrow> jobIndex list \<Rightarrow> jobIndex list" where
  "insert_by_id j xs =
     (if list_ex (\<lambda>x. jobIndex.Id x = jobIndex.Id j) xs
      then replace_by_id j xs
      else insort_key jobIndex.Id j xs)"

definition txn_Insert :: "jobIndex \<Rightarrow> State \<Rightarrow> State" where
  "txn_Insert j s = s\<lparr>inmem := insert_by_id j (inmem s)\<rparr>"

text \<open>
  An assignment through the pointer \<open>txn.First\<close> returned: the record of that id in the
  table takes the new fields, whatever the transaction does afterwards.
\<close>

definition assign_fields :: "jobIndex \<Rightarrow> State \<Rightarrow> State" where
  "assign_fields j s = s\<lparr>inmem := replace_by_id j (inmem s)\<rparr>"

subsection \<open>The persistent store\<close>

text \<open>
  Modelled from the spec: \<open>dbGet\<close> and \<open>dbPut\<close> are defined outside job.go. The spec gives
  the store as keyed by job id with \<open>Get(id) \<rightarrow> Job | NotFound\<close> and \<open>Put(key, bytes)\<close>;
  a failed get leaves the message it was to fill untouched.
\<close>

definition dbGet :: "(string \<rightharpoonup> pbJob) \<Rightarrow> string \<Rightarrow> go_error + pbJob" where
  "dbGet b i =
     (case b i of
        None \<Rightarrow> Inl (status_Errorf NotFound (''record not found for ID: '' @ i))
      | Some v \<Rightarrow> Inr v)"

definition dbPut :: "(string \<rightharpoonup> pbJob) \<Rightarrow> string \<Rightarrow> pbJob \<Rightarrow> (string \<rightharpoonup> pbJob)" where
  "dbPut b i v = b(i \<mapsto> v)"

text \<open>
  \<open>jobById\<close> returns the pointer \<open>&result\<close> in every case, beside the error of \<open>dbGet\<close>:
  the pointer is never nil, so the model returns the record it points to. What a failed
  \<open>dbGet\<close> leaves in that record is not in the sources; the model takes the zero value it
  was declared with, and no property below depends on that content.
\<close>

definition jobById :: "(string \<rightharpoonup> pbJob) \<Rightarrow> string \<Rightarrow> pbJob \<times> go_error option" where
  "jobById b i =
     (case dbGet b i of
        Inl e \<Rightarrow> (pbJob_zero, Some e)
      | Inr v \<Rightarrow> (v, None))"

text \<open>
  \<open>jobReadAndUpdate\<close>: one bolt transaction that reads the record, runs the closure on it
  and writes it back. The closures of job.go never return an error, so the closure is a
  function on the record; what a closure assigns to the captured index record is done by
  the caller, on the success branch (the closure does not run when the read fails). The
  record returned is the updated one.
\<close>

definition jobReadAndUpdate ::
  "string \<Rightarrow> (pbJob \<Rightarrow> pbJob) \<Rightarrow> State \<Rightarrow> go_error + (pbJob \<times> State)" where
  "jobReadAndUpdate i f s =
     (case jobById (db s) i of
        (_, Some e) \<Rightarrow> Inl e
      | (result, None) \<Rightarrow>
          (let r = f result in Inr (r, s\<lparr>db := dbPut (db s) i r\<rparr>)))"

subsection \<open>The blocked-scope tracker\<close>

text \<open>
  Modelled from the spec: \<open>jobAssignedSet\<close> and \<open>jobIsBlocked\<close> live in job_assigned.go,
  which is not among the sources. The spec: a mapping (application, workspace) to the
  assigned job id; \<open>jobAssignedSet(job, assigned)\<close> sets or clears the entry;
  \<open>jobIsBlocked(job)\<close> is true iff the scope maps to a job id other than this one.
\<close>

definition job_scope :: "jobIndex \<Rightarrow> scope" where
  "job_scope j = (jobIndex.Application j, jobIndex.Workspace j)"

definition jobAssignedSet :: "State \<Rightarrow> jobIndex \<Rightarrow> bool \<Rightarrow> State" where
  "jobAssignedSet s j a =
     (if a then s\<lparr>assigned := (assigned s)(job_scope j \<mapsto> jobIndex.Id j)\<rparr>
      else s\<lparr>assigned := (assigned s)(job_scope j := None)\<rparr>)"

definition jobIsBlocked :: "State \<Rightarrow> jobIndex \<Rightarrow> bool" where
  "jobIsBlocked s j =
     (case assigned s (job_scope j) of
        None \<Rightarrow> False
      | Some i \<Rightarrow> i \<noteq> jobIndex.Id j)"

subsection \<open>Index record helpers\<close>

definition jobIndex_Job :: "jobIndex \<Rightarrow> pbJob \<Rightarrow> Job" where
  "jobIndex_Job idx jobpb =
     \<lparr>Job = jobpb, OutputBuffer = jobIndex.OutputBuffer idx, Blocked = False\<rparr>"

text \<open>\<open>End\<close> stops the state timer and clears the field; the record is updated in place.\<close>

definition jobIndex_End :: "jobIndex \<Rightarrow> State \<Rightarrow> jobIndex \<times> State" where
  "jobIndex_End idx s =
     (case StateTimer idx of
        None \<Rightarrow> (idx, s)
      | Some h \<Rightarrow>
          (let idx1 = idx\<lparr>StateTimer := None\<rparr>
           in (idx1, assign_fields idx1 (Timer_Stop h s))))"

subsection \<open>JobCreate\<close>

text \<open>
  \<open>jobIndexSet\<close> builds the index record of a persisted job, arms the timers its state
  asks for and inserts it. \<open>rec.QueueTime\<close> starts as the zero time and is always
  overwritten before the record is used.
\<close>

definition jobIndexSet :: "time \<Rightarrow> pbJob \<Rightarrow> State \<Rightarrow> go_error + (jobIndex \<times> State)" where
  "jobIndexSet now jobpb s =
     (let rec = \<lparr>jobIndex.Id = pbJob.Id jobpb, OpType = map_option fst (Operation jobpb),
                 jobIndex.Application = pbJob.Application jobpb,
                 jobIndex.Workspace = pbJob.Workspace jobpb,
                 jobIndex.QueueTime = 0, TargetAny = False, TargetRunnerId = [],
                 jobIndex.State = pbJob.State jobpb, StateTimer = None,
                 jobIndex.OutputBuffer = None\<rparr>
      in case TargetRunner jobpb of
           None \<Rightarrow> Inl (fmt_Errorf ''job target runner must be set'')
         | Some tr \<Rightarrow>
             (case Target tr of
                None \<Rightarrow> Inl (fmt_Errorf ''unknown runner target value: <nil>'')
              | Some v \<Rightarrow>
                  (let rec1 = (case v of
                                 Ref_Runner_Any \<Rightarrow> rec\<lparr>TargetAny := True\<rparr>
                               | Ref_Runner_Id i \<Rightarrow> rec\<lparr>TargetRunnerId := i\<rparr>)
                   in case pbJob.QueueTime jobpb of
                        None \<Rightarrow> Inl (fmt_Errorf ''timestamp: nil Timestamp'')
                      | Some t \<Rightarrow>
                          (let rec2 = rec1\<lparr>jobIndex.QueueTime := t\<rparr>;
                               (rec3, s3) =
                                 (if jobIndex.State rec2 = Job_WAITING
                                  then (let (h, s') = time_AfterFunc now jobWaitingTimeout
                                                        (CB_JobAck (jobIndex.Id rec2) False) s
                                        in (rec2\<lparr>StateTimer := Some h\<rparr>, s'))
                                  else (rec2, s));
                               (rec4, s4) =
                                 (if jobIndex.State rec3 = Job_RUNNING
                                  then (let (h, s') = time_AfterFunc now jobHeartbeatTimeout
                                                        (CB_JobCancel (jobIndex.Id rec3) True) s3
                                        in (rec3\<lparr>StateTimer := Some h\<rparr>, s'))
                                  else (rec3, s3));
                               s5 = (case ExpireTime jobpb of
                                       None \<Rightarrow> s4
                                     | Some e \<Rightarrow>
                                         snd (time_AfterFunc now (if e < now then 1 else e - now)
                                                (CB_JobExpire (pbJob.Id jobpb)) s4))
                           in Inr (rec4, txn_Insert rec4 s5)))))"

definition jobCreate :: "time \<Rightarrow> pbJob \<Rightarrow> State \<Rightarrow> go_error + State" where
  "jobCreate now jobpb s =
     (let jobpb1 = jobpb\<lparr>pbJob.State := Job_QUEUED, pbJob.QueueTime := Some now\<rparr>;
          s1 = s\<lparr>db := dbPut (db s) (pbJob.Id jobpb1) jobpb1\<rparr>
      in case jobIndexSet now jobpb1 s1 of
           Inl err \<Rightarrow> Inl err
         | Inr (_, s2) \<Rightarrow> Inr s2)"

text \<open>
  \<open>JobCreate\<close> commits both transactions when \<open>jobCreate\<close> succeeds; on an error bolt
  rolls the put back and the deferred \<open>txn.Abort\<close> drops the index write.
\<close>

definition JobCreate :: "time \<Rightarrow> pbJob \<Rightarrow> State \<Rightarrow> go_error option \<times> State" where
  "JobCreate now jobpb s =
     (case jobCreate now jobpb s of
        Inl err \<Rightarrow> (Some err, s)
      | Inr s' \<Rightarrow> (None, s'))"

subsection \<open>JobList and JobById\<close>

text \<open>
  \<open>JobList\<close> walks the primary index. For each record it declares \<open>job\<close>, which is nil,
  and calls \<open>s.db.View\<close> with a closure that assigns to \<open>job\<close> the pointer \<open>jobById\<close>
  returns; the error of \<open>View\<close> is stored in \<open>err\<close> and never read, and \<open>job\<close> is appended.
  \<open>View\<close> runs the closure inside a read transaction; when the transaction cannot begin
  it returns that error and the closure does not run, so \<open>job\<close> is still nil.
  \<open>view_begins k\<close> tells whether the transaction of the \<open>k\<close>-th call begins. An entry of
  the result is None for a nil pointer.
\<close>

fun JobList_loop ::
  "(nat \<Rightarrow> bool) \<Rightarrow> (string \<rightharpoonup> pbJob) \<Rightarrow> nat \<Rightarrow> jobIndex list \<Rightarrow> pbJob option list" where
  "JobList_loop view_begins b k [] = []"
| "JobList_loop view_begins b k (idx # rest) =
     (let job = (if view_begins k
                 then (let (job, err) = jobById b (jobIndex.Id idx) in Some job)
                 else None)
      in job # JobList_loop view_begins b (Suc k) rest)"

definition JobList :: "(nat \<Rightarrow> bool) \<Rightarrow> State \<Rightarrow> pbJob option list \<times> go_error option" where
  "JobList view_begins s = (JobList_loop view_begins (db s) 0 (inmem s), None)"

definition JobById :: "State \<Rightarrow> string \<Rightarrow> Job option \<times> go_error option" where
  "JobById s i =
     (case txn_First s i of
        None \<Rightarrow> (None, None)
      | Some jobIdx \<Rightarrow>
          (let blocked = (if jobIndex.State jobIdx = Job_QUEUED then jobIsBlocked s jobIdx else False);
               (job, err) = jobById (db s) (jobIndex.Id jobIdx);
               result = (jobIndex_Job jobIdx job)\<lparr>Blocked := blocked\<rparr>
           in (Some result, err)))"

subsection \<open>JobAssignForRunner\<close>

text \<open>
  The secondary indexes are read off the table. A \<open>LowerBound\<close> iterator yields, in the
  order of the index key, the records whose key is not below the bound; records with equal
  keys come in the order of the primary index. \<open>StringFieldIndex\<close> with \<open>Lowercase\<close> folds
  the runner id (ASCII letters), and with \<open>AllowMissing\<close> a record whose
  \<open>TargetRunnerId\<close> is empty has no entry in the target-id index.
\<close>

definition to_lower :: "char \<Rightarrow> char" where
  "to_lower c = (if CHR ''A'' \<le> c \<and> c \<le> CHR ''Z'' then char_of (of_char c + (32::nat)) else c)"

text \<open>
  Modelled from the spec: the indexer \<open>IndexTime\<close> is defined outside job.go. The spec
  gives the two indexes as the composites (State, QueueTime ascending) and
  (State, lowercase TargetRunnerId, QueueTime ascending).
\<close>

definition queue_time_key :: "jobIndex \<Rightarrow> nat \<times> time" where
  "queue_time_key j = (Job_State_num (jobIndex.State j), jobIndex.QueueTime j)"

definition target_id_key :: "jobIndex \<Rightarrow> nat \<times> string \<times> time" where
  "target_id_key j =
     (Job_State_num (jobIndex.State j), map to_lower (TargetRunnerId j), jobIndex.QueueTime j)"

definition LowerBound_queue_time :: "State \<Rightarrow> Job_State \<Rightarrow> time \<Rightarrow> jobIndex list" where
  "LowerBound_queue_time s st t =
     sort_key queue_time_key
       (filter (\<lambda>j. (Job_State_num st, t) \<le> queue_time_key j) (inmem s))"

definition LowerBound_target_id :: "State \<Rightarrow> Job_State \<Rightarrow> string \<Rightarrow> time \<Rightarrow> jobIndex list" where
  "LowerBound_target_id s st r t =
     sort_key target_id_key
       (filter (\<lambda>j. TargetRunnerId j \<noteq> [] \<and> (Job_State_num st, map to_lower r, t) \<le> target_id_key j)
          (inmem s))"

text \<open>
  The candidate loops skip a record that is not QUEUED, not for this runner (not for any
  runner), or blocked, and return the first record that remains.
\<close>

definition jobCandidateById :: "State \<Rightarrow> Runner \<Rightarrow> jobIndex option" where
  "jobCandidateById s r =
     find (\<lambda>job. \<not> (jobIndex.State job \<noteq> Job_QUEUED \<or> TargetRunnerId job \<noteq> Runner.Id r)
                 \<and> \<not> jobIsBlocked s job)
       (LowerBound_target_id s Job_QUEUED (Runner.Id r) 0)"

definition jobCandidateAny :: "State \<Rightarrow> Runner \<Rightarrow> jobIndex option" where
  "jobCandidateAny s r =
     find (\<lambda>job. \<not> (jobIndex.State job \<noteq> Job_QUEUED \<or> \<not> TargetAny job)
                 \<and> \<not> jobIsBlocked s job)
       (LowerBound_queue_time s Job_QUEUED 0)"

text \<open>
  \<open>sort.Slice\<close> on fewer than twelve elements is an insertion sort: each element moves
  towards the front while it is less than its left neighbour.
\<close>

definition insert_back :: "('a \<Rightarrow> 'a \<Rightarrow> bool) \<Rightarrow> 'a \<Rightarrow> 'a list \<Rightarrow> 'a list" where
  "insert_back lt x acc =
     rev (dropWhile (lt x) (rev acc)) @ [x] @ rev (takeWhile (lt x) (rev acc))"

definition sort_Slice :: "('a \<Rightarrow> 'a \<Rightarrow> bool) \<Rightarrow> 'a list \<Rightarrow> 'a list" where
  "sort_Slice lt xs = foldl (\<lambda>acc x. insert_back lt x acc) [] xs"

text \<open>
  The loop over the sorted candidates, under the write transaction. A candidate that is
  gone, no longer QUEUED or blocked is skipped. The first one that passes is put in state
  WAITING (in place), persisted with its \<open>AssignTime\<close>, given a waiting timer, re-inserted
  and recorded in the scope tracker. With no candidate left the source aborts and jumps
  back to \<open>RETRY_ASSIGN\<close>: the result \<open>Inr None\<close>.
\<close>

fun assign_candidates :: "time \<Rightarrow> State \<Rightarrow> jobIndex list \<Rightarrow> (go_error + Job option) \<times> State" where
  "assign_candidates now s [] = (Inr None, s)"
| "assign_candidates now s (c # cs) =
     (case txn_First s (jobIndex.Id c) of
        None \<Rightarrow> assign_candidates now s cs
      | Some job \<Rightarrow>
          if jobIndex.State job \<noteq> Job_QUEUED then assign_candidates now s cs
          else if jobIsBlocked s job then assign_candidates now s cs
          else
            (let job1 = job\<lparr>jobIndex.State := Job_WAITING\<rparr>;
                 s1 = assign_fields job1 s
             in case jobReadAndUpdate (jobIndex.Id job1)
                       (\<lambda>jobpb. jobpb\<lparr>pbJob.State := jobIndex.State job1, AssignTime := Some now\<rparr>) s1 of
                  Inl err \<Rightarrow> (Inl err, s1)
                | Inr (result, s2) \<Rightarrow>
                    (let (h, s3) = time_AfterFunc now jobWaitingTimeout
                                     (CB_JobAck (jobIndex.Id job1) False) s2;
                         job2 = job1\<lparr>StateTimer := Some h\<rparr>;
                         s4 = txn_Insert job2 (assign_fields job2 s3);
                         s5 = jobAssignedSet s4 job2 True
                     in (Inr (Some (jobIndex_Job job2 result)), s5))))"

text \<open>
  One pass of \<open>JobAssignForRunner\<close>, from \<open>RETRY_ASSIGN\<close> to a return or to the jump back.
  With no candidate the source blocks on the watch set until another caller changes the
  table and then retries; that wait, like the retry after a pass in which every candidate
  was skipped, is the result \<open>Inr None\<close>.
\<close>

definition JobAssignForRunner :: "time \<Rightarrow> Runner \<Rightarrow> State \<Rightarrow> (go_error + Job option) \<times> State" where
  "JobAssignForRunner now r s =
     (let candidateQuery = (if ByIdOnly r then [jobCandidateById]
                            else [jobCandidateById, jobCandidateAny]);
          candidates = concat (map (\<lambda>f. case f s r of None \<Rightarrow> [] | Some job \<Rightarrow> [job]) candidateQuery)
      in if candidates = [] then (Inr None, s)
         else assign_candidates now s
                (sort_Slice (\<lambda>a b. jobIndex.QueueTime a < jobIndex.QueueTime b) candidates))"

subsection \<open>JobAck\<close>

definition JobAck :: "time \<Rightarrow> string \<Rightarrow> bool \<Rightarrow> State \<Rightarrow> (go_error + Job) \<times> State" where
  "JobAck now i ack s =
     (case txn_First s i of
        None \<Rightarrow> (Inl (status_Errorf NotFound (''job not found: '' @ i)), s)
      | Some job \<Rightarrow>
          if jobIndex.State job \<noteq> Job_WAITING
          then (Inl (status_Errorf FailedPrecondition
                       (''job can't be acked from state: '' @ Job_State_String (jobIndex.State job))), s)
          else
            (case jobReadAndUpdate (jobIndex.Id job)
                    (\<lambda>jobpb. if ack then jobpb\<lparr>pbJob.State := Job_RUNNING, AckTime := Some now\<rparr>
                              else jobpb\<lparr>pbJob.State := Job_QUEUED, AssignTime := None\<rparr>) s of
               Inl err \<Rightarrow> (Inl err, s)
             | Inr (result, s1) \<Rightarrow>
                 (let job1 = (if ack then job\<lparr>jobIndex.State := Job_RUNNING, jobIndex.OutputBuffer := Some []\<rparr>
                              else job\<lparr>jobIndex.State := Job_QUEUED\<rparr>);
                      s2 = assign_fields job1 s1;
                      (job2, s3) = (case StateTimer job1 of
                                      None \<Rightarrow> (job1, s2)
                                    | Some h \<Rightarrow>
                                        (let j = job1\<lparr>StateTimer := None\<rparr>
                                         in (j, assign_fields j (Timer_Stop h s2))));
                      (h, s4) = time_AfterFunc now jobHeartbeatTimeout
                                  (CB_JobCancel (jobIndex.Id job2) True) s3;
                      job3 = job2\<lparr>StateTimer := Some h\<rparr>;
                      s5 = txn_Insert job3 (assign_fields job3 s4);
                      s6 = (if \<not> ack then jobAssignedSet s5 job3 False else s5)
                  in (Inr (jobIndex_Job job3 result), s6))))"

subsection \<open>JobComplete\<close>

text \<open>
  The scope is cleared first, inside the write transaction; the two error returns that
  follow abort the transaction, which drops that write.
\<close>

definition JobComplete ::
  "time \<Rightarrow> string \<Rightarrow> string option \<Rightarrow> go_error option \<Rightarrow> State \<Rightarrow> go_error option \<times> State" where
  "JobComplete now i result cerr s =
     (case txn_First s i of
        None \<Rightarrow> (Some (status_Errorf NotFound (''job not found: '' @ i)), s)
      | Some job \<Rightarrow>
          (let s1 = jobAssignedSet s job False
           in if jobIndex.State job \<noteq> Job_RUNNING
              then (Some (status_Errorf FailedPrecondition
                            (''job can't be completed from state: '' @ Job_State_String (jobIndex.State job))), s)
              else
                (case jobReadAndUpdate (jobIndex.Id job)
                        (\<lambda>jobpb. (let p = jobpb\<lparr>pbJob.State := Job_SUCCESS, Result := result,
                                                  CompleteTime := Some now\<rparr>
                                   in case cerr of
                                        None \<Rightarrow> p
                                      | Some e \<Rightarrow> p\<lparr>pbJob.State := Job_ERROR,
                                                     Error := Some (status_FromError e)\<rparr>)) s1 of
                   Inl err \<Rightarrow> (Some err, s)
                 | Inr (_, s2) \<Rightarrow>
                     (let job1 = (case cerr of
                                    None \<Rightarrow> job\<lparr>jobIndex.State := Job_SUCCESS\<rparr>
                                  | Some e \<Rightarrow> job\<lparr>jobIndex.State := Job_ERROR\<rparr>);
                          (job2, s3) = jobIndex_End job1 (assign_fields job1 s2)
                      in (None, txn_Insert job2 s3)))))"

subsection \<open>JobCancel\<close>

text \<open>
  \<open>jobCancel\<close> assigns to the record before it persists, so the state it returns with an
  error already shows those assignments. It writes nothing transactional but the
  re-insert, so the commit or abort of its caller makes no difference to the result.
\<close>

definition jobCancel :: "time \<Rightarrow> State \<Rightarrow> jobIndex \<Rightarrow> bool \<Rightarrow> go_error option \<times> State" where
  "jobCancel now s job force =
     (if jobIndex.State job = Job_ERROR \<or> jobIndex.State job = Job_SUCCESS then (None, s)
      else
        (let (job1, s1) =
               (if jobIndex.State job = Job_QUEUED
                then (let j = job\<lparr>jobIndex.State := Job_ERROR\<rparr> in (j, assign_fields j s))
                else if jobIndex.State job = Job_WAITING \<or> jobIndex.State job = Job_RUNNING
                then (if force
                      then (let j = job\<lparr>jobIndex.State := Job_ERROR\<rparr>
                            in jobIndex_End j (assign_fields j s))
                      else (job, s))
                else (job, s))
         in case jobReadAndUpdate (jobIndex.Id job1)
                   (\<lambda>jobpb. (let p = jobpb\<lparr>pbJob.State := jobIndex.State job1, CancelTime := Some now\<rparr>
                              in if pbJob.State p = Job_ERROR
                                 then p\<lparr>Error := Some \<lparr>Code = Canceled, Message = ''canceled''\<rparr>\<rparr>
                                 else p)) s1 of
              Inl err \<Rightarrow> (Some err, s1)
            | Inr (_, s2) \<Rightarrow> (None, txn_Insert job1 s2)))"

definition JobCancel :: "time \<Rightarrow> string \<Rightarrow> bool \<Rightarrow> State \<Rightarrow> go_error option \<times> State" where
  "JobCancel now i force s =
     (case txn_First s i of
        None \<Rightarrow> (Some (status_Errorf NotFound (''job not found: '' @ i)), s)
      | Some job \<Rightarrow> jobCancel now s job force)"

subsection \<open>JobHeartbeat and JobExpire\<close>

definition jobHeartbeat :: "time \<Rightarrow> State \<Rightarrow> string \<Rightarrow> go_error option \<times> State" where
  "jobHeartbeat now s i =
     (case txn_First s i of
        None \<Rightarrow> (Some (status_Errorf NotFound (''job not found: '' @ i)), s)
      | Some job \<Rightarrow>
          if jobIndex.State job \<noteq> Job_RUNNING then (None, s)
          else (case StateTimer job of
                  None \<Rightarrow> (None, s)
                | Some h \<Rightarrow> (None, Timer_Reset now h jobHeartbeatTimeout s)))"

definition JobHeartbeat :: "time \<Rightarrow> string \<Rightarrow> State \<Rightarrow> go_error option \<times> State" where
  "JobHeartbeat now i s = jobHeartbeat now s i"

definition JobExpire :: "time \<Rightarrow> string \<Rightarrow> State \<Rightarrow> go_error option \<times> State" where
  "JobExpire now i s =
     (case txn_First s i of
        None \<Rightarrow> (Some (status_Errorf NotFound (''job not found: '' @ i)), s)
      | Some job \<Rightarrow>
          (case jobIndex.State job of
             Job_QUEUED \<Rightarrow> jobCancel now s job False
           | Job_WAITING \<Rightarrow> jobCancel now s job False
           | _ \<Rightarrow> (None, s)))"

subsection \<open>Timer callbacks\<close>

text \<open>A timer that fires runs its closure, which discards what the verb returns.\<close>

definition run_callback :: "time \<Rightarrow> callback \<Rightarrow> State \<Rightarrow> State" where
  "run_callback now cb s =
     (case cb of
        CB_JobAck i a \<Rightarrow> snd (JobAck now i a s)
      | CB_JobCancel i f \<Rightarrow> snd (JobCancel now i f s)
      | CB_JobExpire i \<Rightarrow> snd (JobExpire now i s))"

definition timer_fire :: "time \<Rightarrow> nat \<Rightarrow> State \<Rightarrow> State" where
  "timer_fire now h s =
     (case timers s h of
        None \<Rightarrow> s
      | Some t \<Rightarrow>
          if Active t
          then run_callback now (Callback t) (s\<lparr>timers := (timers s)(h \<mapsto> t\<lparr>Active := False\<rparr>)\<rparr>)
          else s)"

subsection \<open>Example states\<close>

text \<open>
  Concrete records and states on which the theorems below are evaluated: jobs of the
  application \<open>proj/X\<close> in workspace \<open>W\<close>, targeting any runner, queued at time 1.
\<close>

definition example_index :: "string \<Rightarrow> Job_State \<Rightarrow> nat option \<Rightarrow> jobIndex" where
  "example_index i st tm =
     \<lparr>jobIndex.Id = i, OpType = None, jobIndex.Application = Some (''proj'', ''X''),
      jobIndex.Workspace = Some ''W'', jobIndex.QueueTime = 1, TargetAny = True,
      TargetRunnerId = [], jobIndex.State = st, StateTimer = tm, jobIndex.OutputBuffer = None\<rparr>"

definition example_pb :: "string \<Rightarrow> Job_State \<Rightarrow> pbJob" where
  "example_pb i st =
     pbJob_zero\<lparr>pbJob.Id := i, pbJob.Application := Some (''proj'', ''X''),
       pbJob.Workspace := Some ''W'', TargetRunner := Some \<lparr>Target = Some Ref_Runner_Any\<rparr>,
       pbJob.State := st, pbJob.QueueTime := Some 1\<rparr>"

definition example_empty :: State where
  "example_empty = \<lparr>db = Map.empty, inmem = [], assigned = Map.empty, timers = Map.empty, nextTimer = 0\<rparr>"

definition example_unpersisted :: State where
  "example_unpersisted = example_empty\<lparr>inmem := [example_index ''a'' Job_QUEUED None]\<rparr>"

definition example_queued :: State where
  "example_queued =
     \<lparr>db = [''a'' \<mapsto> example_pb ''a'' Job_QUEUED],
      inmem = [example_index ''a'' Job_QUEUED None],
      assigned = Map.empty, timers = Map.empty, nextTimer = 0\<rparr>"

definition example_waiting :: State where
  "example_waiting =
     \<lparr>db = [''a'' \<mapsto> (example_pb ''a'' Job_WAITING)\<lparr>AssignTime := Some 2\<rparr>],
      inmem = [example_index ''a'' Job_WAITING (Some 0)],
      assigned = [(Some (''proj'', ''X''), Some ''W'') \<mapsto> ''a''],
      timers = [0 \<mapsto> \<lparr>Callback = CB_JobAck ''a'' False, Deadline = 2 + jobWaitingTimeout, Active = True\<rparr>],
      nextTimer = 1\<rparr>"

text \<open>
  Job \<open>h\<close> is running and holds the scope; job \<open>q\<close> is queued in the same scope. Timer 0
  was the waiting timer of \<open>h\<close>, stopped by the ack; timer 1 is its heartbeat timer.
\<close>

definition example_running :: State where
  "example_running =
     \<lparr>db = [''h'' \<mapsto> (example_pb ''h'' Job_RUNNING)\<lparr>AssignTime := Some 2, AckTime := Some 3\<rparr>,
            ''q'' \<mapsto> example_pb ''q'' Job_QUEUED],
      inmem = [(example_index ''h'' Job_RUNNING (Some 1))\<lparr>jobIndex.OutputBuffer := Some []\<rparr>,
               example_index ''q'' Job_QUEUED None],
      assigned = [(Some (''proj'', ''X''), Some ''W'') \<mapsto> ''h''],
      timers = [0 \<mapsto> \<lparr>Callback = CB_JobAck ''h'' False, Deadline = 2 + jobWaitingTimeout, Active = False\<rparr>,
                1 \<mapsto> \<lparr>Callback = CB_JobCancel ''h'' True, Deadline = 3 + jobHeartbeatTimeout, Active = True\<rparr>],
      nextTimer = 2\<rparr>"

text \<open>
  Two queued candidates for runner \<open>R\<close>: job \<open>e\<close> targets any runner (queued at 1), job
  \<open>f\<close> targets \<open>R\<close> and is queued at the given time, in another workspace. And the state
  after two creates from which the running example is reached.
\<close>

definition example_targeted :: "time \<Rightarrow> jobIndex" where
  "example_targeted t =
     (example_index ''f'' Job_QUEUED None)\<lparr>jobIndex.Workspace := Some ''V'', TargetAny := False,
        TargetRunnerId := ''R'', jobIndex.QueueTime := t\<rparr>"

definition example_candidates :: "time \<Rightarrow> State" where
  "example_candidates t =
     \<lparr>db = [''e'' \<mapsto> example_pb ''e'' Job_QUEUED,
            ''f'' \<mapsto> (example_pb ''f'' Job_QUEUED)\<lparr>pbJob.Workspace := Some ''V'',
                      TargetRunner := Some \<lparr>Target = Some (Ref_Runner_Id ''R'')\<rparr>,
                      pbJob.QueueTime := Some t\<rparr>],
      inmem = [example_index ''e'' Job_QUEUED None, example_targeted t],
      assigned = Map.empty, timers = Map.empty, nextTimer = 0\<rparr>"

definition example_two_candidates :: State where
  "example_two_candidates = example_candidates 2"

definition example_tie :: State where
  "example_tie = example_candidates 1"

definition example_two_queued :: State where
  "example_two_queued =
     \<lparr>db = [''h'' \<mapsto> example_pb ''h'' Job_QUEUED, ''q'' \<mapsto> example_pb ''q'' Job_QUEUED],
      inmem = [example_index ''h'' Job_QUEUED None, example_index ''q'' Job_QUEUED None],
      assigned = Map.empty, timers = Map.empty, nextTimer = 0\<rparr>"

definition example_runner :: Runner where
  "example_runner = \<lparr>Runner.Id = ''R'', ByIdOnly = False\<rparr>"

section \<open>Properties\<close>

subsection \<open>Lookups in the table\<close>

lemma txn_First_Id: "txn_First s i = Some j \<Longrightarrow> jobIndex.Id j = i"
  by (auto simp: txn_First_def find_Some_iff)

lemma find_replace_by_id:
  "find (\<lambda>x. jobIndex.Id x = i) (replace_by_id j xs) =
     (case find (\<lambda>x. jobIndex.Id x = i) xs of
        None \<Rightarrow> None
      | Some x \<Rightarrow> if jobIndex.Id j = i then Some j else Some x)"
  unfolding replace_by_id_def by (induction xs) auto

lemma find_insort_by_id:
  "\<not> list_ex (\<lambda>x. jobIndex.Id x = jobIndex.Id j) xs \<Longrightarrow>
   find (\<lambda>x. jobIndex.Id x = i) (insort_key jobIndex.Id j xs) =
     (if i = jobIndex.Id j then Some j else find (\<lambda>x. jobIndex.Id x = i) xs)"
  by (induction xs) auto

lemma txn_First_assign_fields:
  "txn_First (assign_fields j s) i =
     (case txn_First s i of
        None \<Rightarrow> None
      | Some x \<Rightarrow> if jobIndex.Id j = i then Some j else Some x)"
  by (simp add: txn_First_def assign_fields_def find_replace_by_id)

lemma txn_First_txn_Insert:
  "txn_First (txn_Insert j s) i = (if i = jobIndex.Id j then Some j else txn_First s i)"
proof (cases "list_ex (\<lambda>x. jobIndex.Id x = jobIndex.Id j) (inmem s)")
  case True
  then have "find (\<lambda>x. jobIndex.Id x = jobIndex.Id j) (inmem s) \<noteq> None"
    by (auto simp: find_None_iff list_ex_iff)
  with True show ?thesis
    by (auto simp: txn_First_def txn_Insert_def insert_by_id_def find_replace_by_id
             split: option.splits)
next
  case False
  then show ?thesis
    by (simp add: txn_First_def txn_Insert_def insert_by_id_def find_insort_by_id)
qed

lemma find_distinct_by_id:
  "distinct (map jobIndex.Id xs) \<Longrightarrow> j \<in> set xs \<Longrightarrow> find (\<lambda>x. jobIndex.Id x = jobIndex.Id j) xs = Some j"
  by (induction xs) (auto simp: rev_image_eqI)

lemma txn_First_distinct:
  "distinct (map jobIndex.Id (inmem s)) \<Longrightarrow> j \<in> set (inmem s) \<Longrightarrow> txn_First s (jobIndex.Id j) = Some j"
  by (simp add: txn_First_def find_distinct_by_id)

subsection \<open>What each step leaves untouched\<close>

lemma inmem_Timer_Stop [simp]: "inmem (Timer_Stop h s) = inmem s"
  and db_Timer_Stop [simp]: "db (Timer_Stop h s) = db s"
  and assigned_Timer_Stop [simp]: "assigned (Timer_Stop h s) = assigned s"
  and nextTimer_Timer_Stop [simp]: "nextTimer (Timer_Stop h s) = nextTimer s"
  by (simp_all add: Timer_Stop_def split: option.splits)

lemma txn_First_Timer_Stop [simp]: "txn_First (Timer_Stop h s) i = txn_First s i"
  by (simp add: txn_First_def)

lemma timers_Timer_Stop:
  "timers (Timer_Stop h s) =
     (case timers s h of None \<Rightarrow> timers s | Some t \<Rightarrow> (timers s)(h \<mapsto> t\<lparr>Active := False\<rparr>))"
  by (simp add: Timer_Stop_def split: option.splits)

lemma fields_assign_fields [simp]:
  "db (assign_fields j s) = db s" "assigned (assign_fields j s) = assigned s"
  "timers (assign_fields j s) = timers s" "nextTimer (assign_fields j s) = nextTimer s"
  by (simp_all add: assign_fields_def)

lemma fields_txn_Insert [simp]:
  "db (txn_Insert j s) = db s" "assigned (txn_Insert j s) = assigned s"
  "timers (txn_Insert j s) = timers s" "nextTimer (txn_Insert j s) = nextTimer s"
  by (simp_all add: txn_Insert_def)

lemma fields_jobAssignedSet [simp]:
  "db (jobAssignedSet s j a) = db s" "inmem (jobAssignedSet s j a) = inmem s"
  "timers (jobAssignedSet s j a) = timers s" "nextTimer (jobAssignedSet s j a) = nextTimer s"
  by (simp_all add: jobAssignedSet_def)

lemma txn_First_jobAssignedSet [simp]: "txn_First (jobAssignedSet s j a) i = txn_First s i"
  by (simp add: txn_First_def)

lemma assigned_jobAssignedSet:
  "assigned (jobAssignedSet s j a) =
     (if a then (assigned s)(job_scope j \<mapsto> jobIndex.Id j) else (assigned s)(job_scope j := None))"
  by (simp add: jobAssignedSet_def)

lemma txn_First_db_update [simp]: "txn_First (s\<lparr>db := d\<rparr>) i = txn_First s i"
  and txn_First_assigned_update [simp]: "txn_First (s\<lparr>assigned := a\<rparr>) i = txn_First s i"
  and txn_First_timers_update [simp]: "txn_First (s\<lparr>timers := t\<rparr>) i = txn_First s i"
  and txn_First_nextTimer_update [simp]: "txn_First (s\<lparr>nextTimer := n\<rparr>) i = txn_First s i"
  by (simp_all add: txn_First_def)

lemma StateTimer_None_update: "StateTimer j = None \<Longrightarrow> j\<lparr>StateTimer := None\<rparr> = j"
  by (cases j) simp

lemma jobReadAndUpdate_Some:
  "db s i = Some p \<Longrightarrow> jobReadAndUpdate i f s = Inr (f p, s\<lparr>db := (db s)(i \<mapsto> f p)\<rparr>)"
  by (simp add: jobReadAndUpdate_def jobById_def dbGet_def dbPut_def Let_def)

lemma jobReadAndUpdate_None:
  "db s i = None \<Longrightarrow> jobReadAndUpdate i f s = Inl (status_Errorf NotFound (''record not found for ID: '' @ i))"
  by (simp add: jobReadAndUpdate_def jobById_def dbGet_def)

subsection \<open>The verbs on a persisted job\<close>

lemma JobAck_nack_result:
  assumes "txn_First s i = Some job" and "jobIndex.State job = Job_WAITING" and "db s i = Some p"
  shows "fst (JobAck now i False s) =
           Inr (jobIndex_Job (job\<lparr>jobIndex.State := Job_QUEUED, StateTimer := Some (nextTimer s)\<rparr>)
                  (p\<lparr>pbJob.State := Job_QUEUED, AssignTime := None\<rparr>))"
    and "txn_First (snd (JobAck now i False s)) i =
           Some (job\<lparr>jobIndex.State := Job_QUEUED, StateTimer := Some (nextTimer s)\<rparr>)"
    and "db (snd (JobAck now i False s)) i = Some (p\<lparr>pbJob.State := Job_QUEUED, AssignTime := None\<rparr>)"
    and "assigned (snd (JobAck now i False s)) (job_scope job) = None"
    and "timers (snd (JobAck now i False s)) (nextTimer s) =
           Some \<lparr>Callback = CB_JobCancel i True, Deadline = now + jobHeartbeatTimeout, Active = True\<rparr>"
proof -
  have id: "jobIndex.Id job = i" using assms(1) by (rule txn_First_Id)
  show "fst (JobAck now i False s) =
           Inr (jobIndex_Job (job\<lparr>jobIndex.State := Job_QUEUED, StateTimer := Some (nextTimer s)\<rparr>)
                  (p\<lparr>pbJob.State := Job_QUEUED, AssignTime := None\<rparr>))"
    using assms id
    by (simp add: JobAck_def jobReadAndUpdate_Some time_AfterFunc_def Let_def jobIndex_Job_def
          split: option.splits prod.splits)
  show "txn_First (snd (JobAck now i False s)) i =
           Some (job\<lparr>jobIndex.State := Job_QUEUED, StateTimer := Some (nextTimer s)\<rparr>)"
    using assms id
    by (simp add: JobAck_def jobReadAndUpdate_Some time_AfterFunc_def Let_def jobAssignedSet_def
          txn_First_txn_Insert
          split: option.splits prod.splits)
  show "db (snd (JobAck now i False s)) i = Some (p\<lparr>pbJob.State := Job_QUEUED, AssignTime := None\<rparr>)"
    using assms id
    by (simp add: JobAck_def jobReadAndUpdate_Some time_AfterFunc_def Let_def jobAssignedSet_def
          split: option.splits prod.splits)
  show "assigned (snd (JobAck now i False s)) (job_scope job) = None"
    using assms id
    by (simp add: JobAck_def jobReadAndUpdate_Some time_AfterFunc_def Let_def jobAssignedSet_def
          job_scope_def
          split: option.splits prod.splits)
  show "timers (snd (JobAck now i False s)) (nextTimer s) =
           Some \<lparr>Callback = CB_JobCancel i True, Deadline = now + jobHeartbeatTimeout, Active = True\<rparr>"
    using assms id
    by (simp add: JobAck_def jobReadAndUpdate_Some time_AfterFunc_def Let_def jobAssignedSet_def
          split: option.splits prod.splits)
qed

lemma jobCancel_queued:
  assumes "txn_First s i = Some job" and "jobIndex.State job = Job_QUEUED" and "db s i = Some p"
  shows "fst (jobCancel now s job force) = None"
    and "txn_First (snd (jobCancel now s job force)) i = Some (job\<lparr>jobIndex.State := Job_ERROR\<rparr>)"
    and "db (snd (jobCancel now s job force)) i =
           Some (p\<lparr>pbJob.State := Job_ERROR, CancelTime := Some now,
                   Error := Some \<lparr>Code = Canceled, Message = ''canceled''\<rparr>\<rparr>)"
    and "assigned (snd (jobCancel now s job force)) = assigned s"
    and "timers (snd (jobCancel now s job force)) = timers s"
proof -
  have id: "jobIndex.Id job = i" using assms(1) by (rule txn_First_Id)
  show "fst (jobCancel now s job force) = None"
    using assms id by (simp add: jobCancel_def jobReadAndUpdate_Some Let_def)
  show "txn_First (snd (jobCancel now s job force)) i = Some (job\<lparr>jobIndex.State := Job_ERROR\<rparr>)"
    using assms id by (simp add: jobCancel_def jobReadAndUpdate_Some Let_def txn_First_txn_Insert)
  show "db (snd (jobCancel now s job force)) i =
           Some (p\<lparr>pbJob.State := Job_ERROR, CancelTime := Some now,
                   Error := Some \<lparr>Code = Canceled, Message = ''canceled''\<rparr>\<rparr>)"
    using assms id by (simp add: jobCancel_def jobReadAndUpdate_Some Let_def)
  show "assigned (snd (jobCancel now s job force)) = assigned s"
    using assms id by (simp add: jobCancel_def jobReadAndUpdate_Some Let_def)
  show "timers (snd (jobCancel now s job force)) = timers s"
    using assms id by (simp add: jobCancel_def jobReadAndUpdate_Some Let_def)
qed

lemma jobCancel_unforced:
  assumes "txn_First s i = Some job"
    and "jobIndex.State job = Job_WAITING \<or> jobIndex.State job = Job_RUNNING"
    and "db s i = Some p"
  shows "fst (jobCancel now s job False) = None"
    and "txn_First (snd (jobCancel now s job False)) i = Some job"
    and "db (snd (jobCancel now s job False)) i =
           Some (p\<lparr>pbJob.State := jobIndex.State job, CancelTime := Some now\<rparr>)"
    and "assigned (snd (jobCancel now s job False)) = assigned s"
    and "timers (snd (jobCancel now s job False)) = timers s"
proof -
  have id: "jobIndex.Id job = i" using assms(1) by (rule txn_First_Id)
  show "fst (jobCancel now s job False) = None"
    using assms id by (auto simp: jobCancel_def jobReadAndUpdate_Some Let_def)
  show "txn_First (snd (jobCancel now s job False)) i = Some job"
    using assms id by (auto simp: jobCancel_def jobReadAndUpdate_Some Let_def txn_First_txn_Insert)
  show "db (snd (jobCancel now s job False)) i =
           Some (p\<lparr>pbJob.State := jobIndex.State job, CancelTime := Some now\<rparr>)"
    using assms id by (auto simp: jobCancel_def jobReadAndUpdate_Some Let_def)
  show "assigned (snd (jobCancel now s job False)) = assigned s"
    using assms id by (auto simp: jobCancel_def jobReadAndUpdate_Some Let_def)
  show "timers (snd (jobCancel now s job False)) = timers s"
    using assms id by (auto simp: jobCancel_def jobReadAndUpdate_Some Let_def)
qed

lemma jobCancel_forced:
  assumes "txn_First s i = Some job"
    and "jobIndex.State job = Job_WAITING \<or> jobIndex.State job = Job_RUNNING"
    and "db s i = Some p"
  shows "fst (jobCancel now s job True) = None"
    and "txn_First (snd (jobCancel now s job True)) i =
           Some (job\<lparr>jobIndex.State := Job_ERROR, StateTimer := None\<rparr>)"
    and "db (snd (jobCancel now s job True)) i =
           Some (p\<lparr>pbJob.State := Job_ERROR, CancelTime := Some now,
                   Error := Some \<lparr>Code = Canceled, Message = ''canceled''\<rparr>\<rparr>)"
    and "assigned (snd (jobCancel now s job True)) = assigned s"
    and "timers (snd (jobCancel now s job True)) =
           (case StateTimer job of None \<Rightarrow> timers s | Some h \<Rightarrow> timers (Timer_Stop h s))"
proof -
  have id: "jobIndex.Id job = i" using assms(1) by (rule txn_First_Id)
  show "fst (jobCancel now s job True) = None"
    using assms id
    by (auto simp: jobCancel_def jobIndex_End_def jobReadAndUpdate_Some Let_def split: option.splits)
  show "txn_First (snd (jobCancel now s job True)) i =
           Some (job\<lparr>jobIndex.State := Job_ERROR, StateTimer := None\<rparr>)"
    using assms id
    by (cases job)
       (auto simp: jobCancel_def jobIndex_End_def jobReadAndUpdate_Some Let_def txn_First_txn_Insert
             split: option.splits)
  show "db (snd (jobCancel now s job True)) i =
           Some (p\<lparr>pbJob.State := Job_ERROR, CancelTime := Some now,
                   Error := Some \<lparr>Code = Canceled, Message = ''canceled''\<rparr>\<rparr>)"
    using assms id
    by (auto simp: jobCancel_def jobIndex_End_def jobReadAndUpdate_Some Let_def split: option.splits)
  show "assigned (snd (jobCancel now s job True)) = assigned s"
    using assms id
    by (auto simp: jobCancel_def jobIndex_End_def jobReadAndUpdate_Some Let_def split: option.splits)
  show "timers (snd (jobCancel now s job True)) =
           (case StateTimer job of None \<Rightarrow> timers s | Some h \<Rightarrow> timers (Timer_Stop h s))"
    using assms id
    by (auto simp: jobCancel_def jobIndex_End_def jobReadAndUpdate_Some Let_def timers_Timer_Stop
             split: option.splits)
qed

subsection \<open>Candidates and the assignment loop\<close>

lemma find_SomeD: "find P xs = Some x \<Longrightarrow> x \<in> set xs \<and> P x"
  by (induction xs) (auto split: if_splits)

lemma candidate_by_id_props:
  assumes "jobCandidateById s r = Some a"
  shows "a \<in> set (inmem s)" and "jobIndex.State a = Job_QUEUED" and "\<not> jobIsBlocked s a"
  using find_SomeD [OF assms [unfolded jobCandidateById_def]]
  by (simp_all add: LowerBound_target_id_def)

lemma candidate_any_props:
  assumes "jobCandidateAny s r = Some b"
  shows "b \<in> set (inmem s)" and "jobIndex.State b = Job_QUEUED" and "\<not> jobIsBlocked s b"
  using find_SomeD [OF assms [unfolded jobCandidateAny_def]]
  by (simp_all add: LowerBound_queue_time_def)

lemma sort_Slice_two:
  "sort_Slice lt [a, b] = (if lt b a then [b, a] else [a, b])"
  by (simp add: sort_Slice_def insert_back_def)

lemma assign_candidates_first:
  assumes "txn_First s (jobIndex.Id c) = Some c" and "jobIndex.State c = Job_QUEUED"
    and "\<not> jobIsBlocked s c" and "db s (jobIndex.Id c) = Some p"
  shows "fst (assign_candidates now s (c # cs)) =
           Inr (Some (jobIndex_Job (c\<lparr>jobIndex.State := Job_WAITING, StateTimer := Some (nextTimer s)\<rparr>)
                        (p\<lparr>pbJob.State := Job_WAITING, AssignTime := Some now\<rparr>)))"
    and "txn_First (snd (assign_candidates now s (c # cs))) (jobIndex.Id c) =
           Some (c\<lparr>jobIndex.State := Job_WAITING, StateTimer := Some (nextTimer s)\<rparr>)"
    and "db (snd (assign_candidates now s (c # cs))) (jobIndex.Id c) =
           Some (p\<lparr>pbJob.State := Job_WAITING, AssignTime := Some now\<rparr>)"
    and "assigned (snd (assign_candidates now s (c # cs))) (job_scope c) = Some (jobIndex.Id c)"
    and "timers (snd (assign_candidates now s (c # cs))) (nextTimer s) =
           Some \<lparr>Callback = CB_JobAck (jobIndex.Id c) False, Deadline = now + jobWaitingTimeout,
                  Active = True\<rparr>"
proof -
  have u: "\<And>f j. jobReadAndUpdate (jobIndex.Id c) f (assign_fields j s) =
      Inr (f p, (assign_fields j s)\<lparr>db := (db (assign_fields j s))(jobIndex.Id c \<mapsto> f p)\<rparr>)"
    using assms(4) by (simp add: jobReadAndUpdate_Some)
  show "fst (assign_candidates now s (c # cs)) =
           Inr (Some (jobIndex_Job (c\<lparr>jobIndex.State := Job_WAITING, StateTimer := Some (nextTimer s)\<rparr>)
                        (p\<lparr>pbJob.State := Job_WAITING, AssignTime := Some now\<rparr>)))"
    using assms(1-3) by (simp add: u Let_def time_AfterFunc_def split: prod.splits)
  show "txn_First (snd (assign_candidates now s (c # cs))) (jobIndex.Id c) =
           Some (c\<lparr>jobIndex.State := Job_WAITING, StateTimer := Some (nextTimer s)\<rparr>)"
    using assms(1-3)
    by (simp add: u Let_def time_AfterFunc_def txn_First_txn_Insert split: prod.splits)
  show "db (snd (assign_candidates now s (c # cs))) (jobIndex.Id c) =
           Some (p\<lparr>pbJob.State := Job_WAITING, AssignTime := Some now\<rparr>)"
    using assms(1-3) by (simp add: u Let_def time_AfterFunc_def split: prod.splits)
  show "assigned (snd (assign_candidates now s (c # cs))) (job_scope c) = Some (jobIndex.Id c)"
    using assms(1-3)
    by (simp add: u Let_def time_AfterFunc_def assigned_jobAssignedSet job_scope_def split: prod.splits)
  show "timers (snd (assign_candidates now s (c # cs))) (nextTimer s) =
           Some \<lparr>Callback = CB_JobAck (jobIndex.Id c) False, Deadline = now + jobWaitingTimeout,
                  Active = True\<rparr>"
    using assms(1-3) by (simp add: u Let_def time_AfterFunc_def split: prod.splits)
qed

subsection \<open>The example states are states the verbs produce\<close>

lemma example_queued_reached:
  "JobCreate 1 ((example_pb ''a'' Job_UNKNOWN)\<lparr>pbJob.QueueTime := None\<rparr>) example_empty =
     (None, example_queued)"
  by (simp add: JobCreate_def jobCreate_def jobIndexSet_def Let_def dbPut_def txn_Insert_def
        insert_by_id_def replace_by_id_def example_pb_def example_index_def example_empty_def example_queued_def
        pbJob_zero_def)

lemma example_waiting_reached:
  "snd (JobAssignForRunner 2 example_runner example_queued) = example_waiting"
  by (simp add: JobAssignForRunner_def jobCandidateById_def jobCandidateAny_def
        LowerBound_target_id_def LowerBound_queue_time_def queue_time_key_def target_id_key_def
        sort_Slice_def insert_back_def txn_First_def jobIsBlocked_def job_scope_def
        jobReadAndUpdate_def jobById_def dbGet_def dbPut_def assign_fields_def txn_Insert_def
        insert_by_id_def replace_by_id_def time_AfterFunc_def jobAssignedSet_def Let_def
        example_runner_def example_queued_def example_waiting_def example_index_def
        example_pb_def pbJob_zero_def)

lemma example_two_queued_reached:
  "snd (JobCreate 1 ((example_pb ''q'' Job_UNKNOWN)\<lparr>pbJob.QueueTime := None\<rparr>)
     (snd (JobCreate 1 ((example_pb ''h'' Job_UNKNOWN)\<lparr>pbJob.QueueTime := None\<rparr>) example_empty))) =
   example_two_queued"
  by (simp add: JobCreate_def jobCreate_def jobIndexSet_def Let_def dbPut_def txn_Insert_def
        insert_by_id_def replace_by_id_def example_pb_def example_index_def example_empty_def example_two_queued_def
        pbJob_zero_def)

lemma example_running_reached:
  "snd (JobAck 3 ''h'' True (snd (JobAssignForRunner 2 example_runner example_two_queued))) =
   example_running"
  by (simp add: JobAck_def JobAssignForRunner_def jobCandidateById_def jobCandidateAny_def
        LowerBound_target_id_def LowerBound_queue_time_def queue_time_key_def target_id_key_def
        sort_Slice_def insert_back_def txn_First_def jobIsBlocked_def job_scope_def
        jobReadAndUpdate_def jobById_def dbGet_def dbPut_def assign_fields_def txn_Insert_def
        insert_by_id_def replace_by_id_def time_AfterFunc_def Timer_Stop_def jobAssignedSet_def Let_def
        example_runner_def example_two_queued_def example_running_def example_index_def
        example_pb_def pbJob_zero_def;
      auto simp: fun_eq_iff)

lemma example_candidates_reached:
  "snd (JobCreate t ((example_pb ''f'' Job_UNKNOWN)\<lparr>pbJob.Workspace := Some ''V'',
          TargetRunner := Some \<lparr>Target = Some (Ref_Runner_Id ''R'')\<rparr>, pbJob.QueueTime := None\<rparr>)
     (snd (JobCreate 1 ((example_pb ''e'' Job_UNKNOWN)\<lparr>pbJob.QueueTime := None\<rparr>) example_empty))) =
   example_candidates t"
  by (simp add: JobCreate_def jobCreate_def jobIndexSet_def Let_def dbPut_def txn_Insert_def
        insert_by_id_def replace_by_id_def example_pb_def example_index_def example_targeted_def example_empty_def
        example_candidates_def pbJob_zero_def)

subsection \<open>JobList\<close>

lemma length_JobList_loop: "length (JobList_loop v b n xs) = length xs"
  by (induction xs arbitrary: n) (simp_all add: Let_def)

lemma nth_JobList_loop:
  "k < length xs \<Longrightarrow>
   JobList_loop v b n xs ! k =
     (if v (n + k) then Some (fst (jobById b (jobIndex.Id (xs ! k)))) else None)"
proof (induction xs arbitrary: n k)
  case Nil
  then show ?case by simp
next
  case (Cons x xs)
  show ?case
  proof (cases k)
    case 0
    then show ?thesis by (simp add: Let_def split_beta)
  next
    case (Suc m)
    with Cons.prems have "m < length xs" by simp
    from Cons.IH [OF this, of "Suc n"] Suc show ?thesis by (simp add: Let_def)
  qed
qed

text \<open>
  C10, as amended. \<open>JobList\<close> drops the error of a failed read and returns success with one
  entry per index record, in the order of the table. The entry of a job is nil when the
  read transaction of its \<open>View\<close> call did not begin. When the transaction began, the entry
  is the pointer \<open>jobById\<close> returned, which is not nil: also when the read of the persisted
  record failed inside the transaction; when that read succeeded it points to the
  persisted record.
\<close>

theorem JobList_entries:
  "snd (JobList v s) = None
   \<and> length (fst (JobList v s)) = length (inmem s)
   \<and> (k < length (inmem s) \<and> \<not> v k \<longrightarrow> fst (JobList v s) ! k = None)
   \<and> (k < length (inmem s) \<and> v k \<longrightarrow>
        fst (JobList v s) ! k = Some (fst (jobById (db s) (jobIndex.Id (inmem s ! k)))))
   \<and> (k < length (inmem s) \<and> v k \<and> dbGet (db s) (jobIndex.Id (inmem s ! k)) = Inl e \<longrightarrow>
        fst (JobList v s) ! k \<noteq> None)
   \<and> (k < length (inmem s) \<and> v k \<and> dbGet (db s) (jobIndex.Id (inmem s ! k)) = Inr p \<longrightarrow>
        fst (JobList v s) ! k = Some p)"
  by (simp add: JobList_def length_JobList_loop nth_JobList_loop jobById_def)

theorem JobList_entries_witness:
  "0 < length (inmem example_unpersisted)
   \<and> dbGet (db example_unpersisted) (jobIndex.Id (inmem example_unpersisted ! 0)) =
        Inl (status_Errorf NotFound (''record not found for ID: '' @ ''a''))
   \<and> snd (JobList (\<lambda>k. False) example_unpersisted) = None
   \<and> length (fst (JobList (\<lambda>k. False) example_unpersisted)) = length (inmem example_unpersisted)
   \<and> fst (JobList (\<lambda>k. False) example_unpersisted) ! 0 = None
   \<and> fst (JobList (\<lambda>k. True) example_unpersisted) ! 0 \<noteq> None
   \<and> 0 < length (inmem example_queued)
   \<and> dbGet (db example_queued) (jobIndex.Id (inmem example_queued ! 0)) = Inr (example_pb ''a'' Job_QUEUED)
   \<and> fst (JobList (\<lambda>k. True) example_queued) ! 0 = Some (example_pb ''a'' Job_QUEUED)"
proof -
  have h1: "0 < length (inmem example_unpersisted)"
    by (simp add: example_unpersisted_def example_empty_def)
  have h2: "dbGet (db example_unpersisted) (jobIndex.Id (inmem example_unpersisted ! 0)) =
        Inl (status_Errorf NotFound (''record not found for ID: '' @ ''a''))"
    by (simp add: dbGet_def example_unpersisted_def example_empty_def example_index_def)
  have h3: "0 < length (inmem example_queued)"
    by (simp add: example_queued_def)
  have h4: "dbGet (db example_queued) (jobIndex.Id (inmem example_queued ! 0)) =
        Inr (example_pb ''a'' Job_QUEUED)"
    by (simp add: dbGet_def example_queued_def example_index_def)
  note a = JobList_entries [where v = "\<lambda>k. False" and s = example_unpersisted and k = 0]
  note b = JobList_entries [where v = "\<lambda>k. True" and s = example_unpersisted and k = 0
      and e = "status_Errorf NotFound (''record not found for ID: '' @ ''a'')"]
  note c = JobList_entries [where v = "\<lambda>k. True" and s = example_queued and k = 0
      and p = "example_pb ''a'' Job_QUEUED"]
  show ?thesis
    using a b c h1 h2 h3 h4 by (simp add: jobById_def)
qed

text \<open>
  C10 as stated fails: with job \<open>a\<close> indexed and not persisted, and the read transaction
  begun, the read of its record fails inside the closure, and the entry at its position
  is not nil.
\<close>

theorem JobList_failed_read_not_nil:
  "isl (dbGet (db example_unpersisted) ''a'')
   \<and> snd (JobList (\<lambda>k. True) example_unpersisted) = None
   \<and> fst (JobList (\<lambda>k. True) example_unpersisted) ! 0 \<noteq> None"
  by (simp add: JobList_def jobById_def dbGet_def example_unpersisted_def example_empty_def
        example_index_def Let_def)

subsection \<open>Unknown ids\<close>

text \<open>
  C4, as amended. With an id that is not in the table, \<open>JobAck\<close>, \<open>JobComplete\<close>,
  \<open>JobCancel\<close>, \<open>JobHeartbeat\<close> and \<open>JobExpire\<close> return the NotFound error
  \<open>job not found: id\<close> and leave the state as it was; \<open>JobById\<close> returns a nil job and no
  error.
\<close>

theorem unknown_id_NotFound:
  "txn_First s i = None \<Longrightarrow>
     JobAck now i ack s = (Inl (status_Errorf NotFound (''job not found: '' @ i)), s)
   \<and> JobComplete now i result cerr s = (Some (status_Errorf NotFound (''job not found: '' @ i)), s)
   \<and> JobCancel now i force s = (Some (status_Errorf NotFound (''job not found: '' @ i)), s)
   \<and> JobHeartbeat now i s = (Some (status_Errorf NotFound (''job not found: '' @ i)), s)
   \<and> JobExpire now i s = (Some (status_Errorf NotFound (''job not found: '' @ i)), s)
   \<and> JobById s i = (None, None)"
  by (simp add: JobAck_def JobComplete_def JobCancel_def JobHeartbeat_def jobHeartbeat_def
        JobExpire_def JobById_def)

theorem unknown_id_NotFound_witness:
  "txn_First example_empty ''x'' = None
   \<and> JobAck 5 ''x'' False example_empty = (Inl (status_Errorf NotFound (''job not found: '' @ ''x'')), example_empty)
   \<and> JobComplete 5 ''x'' None None example_empty = (Some (status_Errorf NotFound (''job not found: '' @ ''x'')), example_empty)
   \<and> JobCancel 5 ''x'' True example_empty = (Some (status_Errorf NotFound (''job not found: '' @ ''x'')), example_empty)
   \<and> JobHeartbeat 5 ''x'' example_empty = (Some (status_Errorf NotFound (''job not found: '' @ ''x'')), example_empty)
   \<and> JobExpire 5 ''x'' example_empty = (Some (status_Errorf NotFound (''job not found: '' @ ''x'')), example_empty)
   \<and> JobById example_empty ''x'' = (None, None)"
proof -
  have h: "txn_First example_empty ''x'' = None"
    by (simp add: txn_First_def example_empty_def)
  show ?thesis
    using h unknown_id_NotFound [OF h, of 5 False None None True] by simp
qed

text \<open>
  C4 as stated fails: \<open>JobById\<close> on an id that does not exist returns no error at all.
\<close>

theorem JobById_unknown_id_no_error:
  "txn_First example_empty ''x'' = None \<and> snd (JobById example_empty ''x'') = None"
  by (simp add: JobById_def txn_First_def example_empty_def)

subsection \<open>JobAck with ack false\<close>

text \<open>
  C1. The claim: every operation keeps a non-nil \<open>StateTimer\<close> on WAITING and RUNNING jobs
  only, and \<open>Ack(id, false)\<close> on a WAITING job cancels the waiting timer, frees the scope,
  clears \<open>AssignTime\<close> and leaves the job QUEUED with no live timer. The code does the
  first four and then arms the heartbeat timer whatever \<open>ack\<close> is: after the nack of a
  persisted WAITING job the job is QUEUED, its \<open>StateTimer\<close> holds a fresh active timer
  whose closure is the forced cancel, and when that timer fires the queued job is moved
  to ERROR.
\<close>

theorem JobAck_nack_arms_heartbeat_timer:
  "txn_First s i = Some job \<and> jobIndex.State job = Job_WAITING \<and> db s i = Some p \<longrightarrow>
     \<not> isl (fst (JobAck now i False s))
     \<and> txn_First (snd (JobAck now i False s)) i =
         Some (job\<lparr>jobIndex.State := Job_QUEUED, StateTimer := Some (nextTimer s)\<rparr>)
     \<and> timers (snd (JobAck now i False s)) (nextTimer s) =
         Some \<lparr>Callback = CB_JobCancel i True, Deadline = now + jobHeartbeatTimeout, Active = True\<rparr>
     \<and> db (snd (JobAck now i False s)) i = Some (p\<lparr>pbJob.State := Job_QUEUED, AssignTime := None\<rparr>)
     \<and> assigned (snd (JobAck now i False s)) (job_scope job) = None
     \<and> map_option jobIndex.State
          (txn_First (timer_fire now' (nextTimer s) (snd (JobAck now i False s))) i) = Some Job_ERROR"
proof (intro impI)
  assume a: "txn_First s i = Some job \<and> jobIndex.State job = Job_WAITING \<and> db s i = Some p"
  then have a1: "txn_First s i = Some job" and a2: "jobIndex.State job = Job_WAITING"
    and a3: "db s i = Some p"
    by simp_all
  note r = JobAck_nack_result [OF a1 a2 a3, of now]
  define s1 where "s1 = snd (JobAck now i False s)"
  define t where "t = \<lparr>Callback = CB_JobCancel i True, Deadline = now + jobHeartbeatTimeout, Active = True\<rparr>"
  define s2 where "s2 = s1\<lparr>timers := (timers s1)(nextTimer s \<mapsto> t\<lparr>Active := False\<rparr>)\<rparr>"
  define job3 where "job3 = job\<lparr>jobIndex.State := Job_QUEUED, StateTimer := Some (nextTimer s)\<rparr>"
  have b1: "txn_First s2 i = Some job3"
    using r(2) by (simp add: s2_def s1_def job3_def)
  have b2: "jobIndex.State job3 = Job_QUEUED"
    by (simp add: job3_def)
  have b3: "db s2 i = Some (p\<lparr>pbJob.State := Job_QUEUED, AssignTime := None\<rparr>)"
    using r(3) by (simp add: s2_def s1_def)
  have f: "timer_fire now' (nextTimer s) s1 = snd (jobCancel now' s2 job3 True)"
    using r(5) b1 by (simp add: timer_fire_def run_callback_def JobCancel_def s1_def s2_def t_def)
  have "map_option jobIndex.State (txn_First (timer_fire now' (nextTimer s) s1) i) = Some Job_ERROR"
    by (simp add: f jobCancel_queued(2) [OF b1 b2 b3])
  then show "\<not> isl (fst (JobAck now i False s))
     \<and> txn_First (snd (JobAck now i False s)) i =
         Some (job\<lparr>jobIndex.State := Job_QUEUED, StateTimer := Some (nextTimer s)\<rparr>)
     \<and> timers (snd (JobAck now i False s)) (nextTimer s) =
         Some \<lparr>Callback = CB_JobCancel i True, Deadline = now + jobHeartbeatTimeout, Active = True\<rparr>
     \<and> db (snd (JobAck now i False s)) i = Some (p\<lparr>pbJob.State := Job_QUEUED, AssignTime := None\<rparr>)
     \<and> assigned (snd (JobAck now i False s)) (job_scope job) = None
     \<and> map_option jobIndex.State
          (txn_First (timer_fire now' (nextTimer s) (snd (JobAck now i False s))) i) = Some Job_ERROR"
    by (simp add: r s1_def)
qed

theorem JobAck_nack_arms_heartbeat_timer_witness:
  "txn_First example_waiting ''a'' = Some (example_index ''a'' Job_WAITING (Some 0))
   \<and> db example_waiting ''a'' = Some ((example_pb ''a'' Job_WAITING)\<lparr>AssignTime := Some 2\<rparr>)
   \<and> \<not> isl (fst (JobAck 5 ''a'' False example_waiting))
   \<and> txn_First (snd (JobAck 5 ''a'' False example_waiting)) ''a'' =
        Some (example_index ''a'' Job_QUEUED (Some 1))
   \<and> timers (snd (JobAck 5 ''a'' False example_waiting)) 1 =
        Some \<lparr>Callback = CB_JobCancel ''a'' True, Deadline = 5 + jobHeartbeatTimeout, Active = True\<rparr>
   \<and> db (snd (JobAck 5 ''a'' False example_waiting)) ''a'' = Some (example_pb ''a'' Job_QUEUED)
   \<and> assigned (snd (JobAck 5 ''a'' False example_waiting)) (Some (''proj'', ''X''), Some ''W'') = None
   \<and> map_option jobIndex.State
        (txn_First (timer_fire (5 + jobHeartbeatTimeout) 1 (snd (JobAck 5 ''a'' False example_waiting))) ''a'') =
        Some Job_ERROR"
proof -
  have h1: "txn_First example_waiting ''a'' = Some (example_index ''a'' Job_WAITING (Some 0))"
    by (simp add: txn_First_def example_waiting_def example_index_def)
  have h3: "db example_waiting ''a'' = Some ((example_pb ''a'' Job_WAITING)\<lparr>AssignTime := Some 2\<rparr>)"
    by (simp add: example_waiting_def)
  have h4: "nextTimer example_waiting = 1"
    by (simp add: example_waiting_def)
  note a = JobAck_nack_arms_heartbeat_timer [where s = example_waiting and i = "''a''" and now = 5
      and job = "example_index ''a'' Job_WAITING (Some 0)"
      and p = "(example_pb ''a'' Job_WAITING)\<lparr>AssignTime := Some 2\<rparr>"
      and now' = "5 + jobHeartbeatTimeout"]
  show ?thesis
    using a h1 h3 h4 by (simp add: example_index_def example_pb_def pbJob_zero_def job_scope_def)
qed

subsection \<open>Forced cancel and the scope tracker\<close>

text \<open>
  C2. The claim: a job that leaves WAITING or RUNNING, also by \<open>Cancel(force=true)\<close> and by
  the heartbeat timeout, releases its scope, so that a later QUEUED job of the scope is no
  longer blocked. \<open>jobCancel\<close> never calls \<open>jobAssignedSet\<close>: after the forced cancel of a
  persisted WAITING or RUNNING job that holds its scope, the job is in ERROR with its timer
  stopped, the tracker still maps the scope to it, and any other job of the scope is still
  blocked; the same holds when the heartbeat timer of a RUNNING job fires.
\<close>

theorem force_cancel_keeps_scope_assigned:
  "(txn_First s i = Some job \<and> (jobIndex.State job = Job_WAITING \<or> jobIndex.State job = Job_RUNNING)
    \<and> db s i = Some p \<and> assigned s (job_scope job) = Some i
    \<and> job_scope q = job_scope job \<and> jobIndex.Id q \<noteq> i \<longrightarrow>
      fst (JobCancel now i True s) = None
      \<and> txn_First (snd (JobCancel now i True s)) i =
          Some (job\<lparr>jobIndex.State := Job_ERROR, StateTimer := None\<rparr>)
      \<and> assigned (snd (JobCancel now i True s)) (job_scope job) = Some i
      \<and> jobIsBlocked (snd (JobCancel now i True s)) q)
   \<and> (txn_First s i = Some job \<and> jobIndex.State job = Job_RUNNING
    \<and> db s i = Some p \<and> assigned s (job_scope job) = Some i
    \<and> job_scope q = job_scope job \<and> jobIndex.Id q \<noteq> i
    \<and> StateTimer job = Some h \<and> timers s h = Some t \<and> Active t \<and> Callback t = CB_JobCancel i True \<longrightarrow>
      txn_First (timer_fire now h s) i = Some (job\<lparr>jobIndex.State := Job_ERROR, StateTimer := None\<rparr>)
      \<and> assigned (timer_fire now h s) (job_scope job) = Some i
      \<and> jobIsBlocked (timer_fire now h s) q)"
proof (intro conjI impI)
  assume a: "txn_First s i = Some job \<and> (jobIndex.State job = Job_WAITING \<or> jobIndex.State job = Job_RUNNING)
    \<and> db s i = Some p \<and> assigned s (job_scope job) = Some i
    \<and> job_scope q = job_scope job \<and> jobIndex.Id q \<noteq> i"
  then have a1: "txn_First s i = Some job"
    and a2: "jobIndex.State job = Job_WAITING \<or> jobIndex.State job = Job_RUNNING"
    and a3: "db s i = Some p" and a4: "assigned s (job_scope job) = Some i"
    and a5: "job_scope q = job_scope job" and a6: "jobIndex.Id q \<noteq> i"
    by simp_all
  have c: "JobCancel now i True s = jobCancel now s job True"
    using a1 by (simp add: JobCancel_def)
  note r = jobCancel_forced [OF a1 a2 a3, of now]
  show "fst (JobCancel now i True s) = None" by (simp add: c r)
  show "txn_First (snd (JobCancel now i True s)) i =
          Some (job\<lparr>jobIndex.State := Job_ERROR, StateTimer := None\<rparr>)"
    by (simp add: c r)
  show "assigned (snd (JobCancel now i True s)) (job_scope job) = Some i"
    using a4 by (simp add: c r)
  show "jobIsBlocked (snd (JobCancel now i True s)) q"
    using a4 a5 a6 by (simp add: c r jobIsBlocked_def)
next
  assume a: "txn_First s i = Some job \<and> jobIndex.State job = Job_RUNNING
    \<and> db s i = Some p \<and> assigned s (job_scope job) = Some i
    \<and> job_scope q = job_scope job \<and> jobIndex.Id q \<noteq> i
    \<and> StateTimer job = Some h \<and> timers s h = Some t \<and> Active t \<and> Callback t = CB_JobCancel i True"
  then have a1: "txn_First s i = Some job"
    and a2: "jobIndex.State job = Job_WAITING \<or> jobIndex.State job = Job_RUNNING"
    and a3: "db s i = Some p" and a4: "assigned s (job_scope job) = Some i"
    and a5: "job_scope q = job_scope job" and a6: "jobIndex.Id q \<noteq> i"
    and a7: "timers s h = Some t" and a8: "Active t" and a9: "Callback t = CB_JobCancel i True"
    by simp_all
  define s' where "s' = s\<lparr>timers := (timers s)(h \<mapsto> t\<lparr>Active := False\<rparr>)\<rparr>"
  have b1: "txn_First s' i = Some job" using a1 by (simp add: s'_def)
  have b3: "db s' i = Some p" using a3 by (simp add: s'_def)
  have f: "timer_fire now h s = snd (jobCancel now s' job True)"
    using a7 a8 a9 b1 by (simp add: timer_fire_def run_callback_def JobCancel_def s'_def)
  note r = jobCancel_forced [OF b1 a2 b3, of now]
  have as': "assigned s' = assigned s" by (simp add: s'_def)
  show "txn_First (timer_fire now h s) i = Some (job\<lparr>jobIndex.State := Job_ERROR, StateTimer := None\<rparr>)"
    by (simp add: f r)
  show "assigned (timer_fire now h s) (job_scope job) = Some i"
    using a4 by (simp add: f r as')
  show "jobIsBlocked (timer_fire now h s) q"
    using a4 a5 a6 by (simp add: f r as' jobIsBlocked_def)
qed

theorem force_cancel_keeps_scope_assigned_witness:
  "txn_First example_running ''h'' =
        Some ((example_index ''h'' Job_RUNNING (Some 1))\<lparr>jobIndex.OutputBuffer := Some []\<rparr>)
   \<and> txn_First example_running ''q'' = Some (example_index ''q'' Job_QUEUED None)
   \<and> assigned example_running (Some (''proj'', ''X''), Some ''W'') = Some ''h''
   \<and> fst (JobCancel 9 ''h'' True example_running) = None
   \<and> txn_First (snd (JobCancel 9 ''h'' True example_running)) ''h'' =
        Some ((example_index ''h'' Job_ERROR None)\<lparr>jobIndex.OutputBuffer := Some []\<rparr>)
   \<and> assigned (snd (JobCancel 9 ''h'' True example_running)) (Some (''proj'', ''X''), Some ''W'') = Some ''h''
   \<and> jobIsBlocked (snd (JobCancel 9 ''h'' True example_running)) (example_index ''q'' Job_QUEUED None)
   \<and> txn_First (timer_fire 9 1 example_running) ''h'' =
        Some ((example_index ''h'' Job_ERROR None)\<lparr>jobIndex.OutputBuffer := Some []\<rparr>)
   \<and> assigned (timer_fire 9 1 example_running) (Some (''proj'', ''X''), Some ''W'') = Some ''h''
   \<and> jobIsBlocked (timer_fire 9 1 example_running) (example_index ''q'' Job_QUEUED None)"
proof -
  have h1: "txn_First example_running ''h'' =
      Some ((example_index ''h'' Job_RUNNING (Some 1))\<lparr>jobIndex.OutputBuffer := Some []\<rparr>)"
    by (simp add: txn_First_def example_running_def example_index_def)
  have h2: "txn_First example_running ''q'' = Some (example_index ''q'' Job_QUEUED None)"
    by (simp add: txn_First_def example_running_def example_index_def)
  have h3: "db example_running ''h'' =
      Some ((example_pb ''h'' Job_RUNNING)\<lparr>AssignTime := Some 2, AckTime := Some 3\<rparr>)"
    by (simp add: example_running_def)
  have h4: "timers example_running 1 =
      Some \<lparr>Callback = CB_JobCancel ''h'' True, Deadline = 3 + jobHeartbeatTimeout, Active = True\<rparr>"
    by (simp add: example_running_def)
  have h5: "assigned example_running (Some (''proj'', ''X''), Some ''W'') = Some ''h''"
    by (simp add: example_running_def)
  note a = force_cancel_keeps_scope_assigned [where s = example_running and i = "''h''" and now = 9
      and job = "(example_index ''h'' Job_RUNNING (Some 1))\<lparr>jobIndex.OutputBuffer := Some []\<rparr>"
      and p = "(example_pb ''h'' Job_RUNNING)\<lparr>AssignTime := Some 2, AckTime := Some 3\<rparr>"
      and q = "example_index ''q'' Job_QUEUED None" and h = 1
      and t = "\<lparr>Callback = CB_JobCancel ''h'' True, Deadline = 3 + jobHeartbeatTimeout, Active = True\<rparr>"]
  show ?thesis
    using a h1 h2 h3 h4 h5 by (simp add: example_index_def job_scope_def)
qed

subsection \<open>JobExpire\<close>

text \<open>
  C3, as amended. For a persisted job in state QUEUED, \<open>JobExpire\<close> succeeds and moves the
  job to ERROR, in the index and in the store, with \<open>CancelTime\<close> set and the stored error
  Canceled. For a persisted job in state WAITING it succeeds, sets \<open>CancelTime\<close> and changes
  nothing else: the job stays WAITING, its stored error, its timer and the scope tracker
  are as before. For a job in any other state it succeeds and changes nothing.
\<close>

theorem JobExpire_cases:
  "(txn_First s i = Some job \<and> jobIndex.State job = Job_QUEUED \<and> db s i = Some p \<longrightarrow>
      fst (JobExpire now i s) = None
      \<and> txn_First (snd (JobExpire now i s)) i = Some (job\<lparr>jobIndex.State := Job_ERROR\<rparr>)
      \<and> db (snd (JobExpire now i s)) i =
           Some (p\<lparr>pbJob.State := Job_ERROR, CancelTime := Some now,
                   Error := Some \<lparr>Code = Canceled, Message = ''canceled''\<rparr>\<rparr>))
   \<and> (txn_First s i = Some job \<and> jobIndex.State job = Job_WAITING \<and> db s i = Some p \<longrightarrow>
      fst (JobExpire now i s) = None
      \<and> txn_First (snd (JobExpire now i s)) i = Some job
      \<and> db (snd (JobExpire now i s)) i = Some (p\<lparr>pbJob.State := Job_WAITING, CancelTime := Some now\<rparr>)
      \<and> assigned (snd (JobExpire now i s)) = assigned s
      \<and> timers (snd (JobExpire now i s)) = timers s)
   \<and> (txn_First s i = Some job \<and> jobIndex.State job \<noteq> Job_QUEUED \<and> jobIndex.State job \<noteq> Job_WAITING \<longrightarrow>
      JobExpire now i s = (None, s))"
proof (intro conjI impI)
  assume a: "txn_First s i = Some job \<and> jobIndex.State job = Job_QUEUED \<and> db s i = Some p"
  then have e: "JobExpire now i s = jobCancel now s job False"
    by (simp add: JobExpire_def)
  from a have a1: "txn_First s i = Some job" and a2: "jobIndex.State job = Job_QUEUED"
    and a3: "db s i = Some p"
    by simp_all
  note r = jobCancel_queued [OF a1 a2 a3, of now False]
  show "fst (JobExpire now i s) = None" by (simp add: e r)
  show "txn_First (snd (JobExpire now i s)) i = Some (job\<lparr>jobIndex.State := Job_ERROR\<rparr>)"
    by (simp add: e r)
  show "db (snd (JobExpire now i s)) i =
           Some (p\<lparr>pbJob.State := Job_ERROR, CancelTime := Some now,
                   Error := Some \<lparr>Code = Canceled, Message = ''canceled''\<rparr>\<rparr>)"
    by (simp add: e r)
next
  assume a: "txn_First s i = Some job \<and> jobIndex.State job = Job_WAITING \<and> db s i = Some p"
  then have e: "JobExpire now i s = jobCancel now s job False"
    by (simp add: JobExpire_def)
  from a have a1: "txn_First s i = Some job"
    and a2: "jobIndex.State job = Job_WAITING \<or> jobIndex.State job = Job_RUNNING"
    and a3: "db s i = Some p" and a4: "jobIndex.State job = Job_WAITING"
    by simp_all
  note r = jobCancel_unforced [OF a1 a2 a3, of now]
  show "fst (JobExpire now i s) = None" by (simp add: e r)
  show "txn_First (snd (JobExpire now i s)) i = Some job" by (simp add: e r)
  show "db (snd (JobExpire now i s)) i = Some (p\<lparr>pbJob.State := Job_WAITING, CancelTime := Some now\<rparr>)"
    by (simp add: e r a4)
  show "assigned (snd (JobExpire now i s)) = assigned s" by (simp add: e r)
  show "timers (snd (JobExpire now i s)) = timers s" by (simp add: e r)
next
  assume "txn_First s i = Some job \<and> jobIndex.State job \<noteq> Job_QUEUED \<and> jobIndex.State job \<noteq> Job_WAITING"
  then show "JobExpire now i s = (None, s)"
    by (cases "jobIndex.State job") (simp_all add: JobExpire_def)
qed

theorem JobExpire_cases_witness:
  "txn_First example_queued ''a'' = Some (example_index ''a'' Job_QUEUED None)
   \<and> db example_queued ''a'' = Some (example_pb ''a'' Job_QUEUED)
   \<and> fst (JobExpire 9 ''a'' example_queued) = None
   \<and> txn_First (snd (JobExpire 9 ''a'' example_queued)) ''a'' = Some (example_index ''a'' Job_ERROR None)
   \<and> db (snd (JobExpire 9 ''a'' example_queued)) ''a'' =
        Some ((example_pb ''a'' Job_ERROR)\<lparr>CancelTime := Some 9,
                Error := Some \<lparr>Code = Canceled, Message = ''canceled''\<rparr>\<rparr>)
   \<and> txn_First example_waiting ''a'' = Some (example_index ''a'' Job_WAITING (Some 0))
   \<and> txn_First (snd (JobExpire 9 ''a'' example_waiting)) ''a'' = Some (example_index ''a'' Job_WAITING (Some 0))
   \<and> db (snd (JobExpire 9 ''a'' example_waiting)) ''a'' =
        Some ((example_pb ''a'' Job_WAITING)\<lparr>AssignTime := Some 2, CancelTime := Some 9\<rparr>)
   \<and> txn_First example_running ''h'' =
        Some ((example_index ''h'' Job_RUNNING (Some 1))\<lparr>jobIndex.OutputBuffer := Some []\<rparr>)
   \<and> JobExpire 9 ''h'' example_running = (None, example_running)"
proof -
  have h1: "txn_First example_queued ''a'' = Some (example_index ''a'' Job_QUEUED None)"
    by (simp add: txn_First_def example_queued_def example_index_def)
  have h2: "txn_First example_waiting ''a'' = Some (example_index ''a'' Job_WAITING (Some 0))"
    by (simp add: txn_First_def example_waiting_def example_index_def)
  have h3: "txn_First example_running ''h'' =
      Some ((example_index ''h'' Job_RUNNING (Some 1))\<lparr>jobIndex.OutputBuffer := Some []\<rparr>)"
    by (simp add: txn_First_def example_running_def example_index_def)
  have d1: "db example_queued ''a'' = Some (example_pb ''a'' Job_QUEUED)"
    by (simp add: example_queued_def)
  have d2: "db example_waiting ''a'' = Some ((example_pb ''a'' Job_WAITING)\<lparr>AssignTime := Some 2\<rparr>)"
    by (simp add: example_waiting_def)
  note a = JobExpire_cases [where s = example_queued and i = "''a''" and now = 9
      and job = "example_index ''a'' Job_QUEUED None" and p = "example_pb ''a'' Job_QUEUED"]
  note b = JobExpire_cases [where s = example_waiting and i = "''a''" and now = 9
      and job = "example_index ''a'' Job_WAITING (Some 0)"
      and p = "(example_pb ''a'' Job_WAITING)\<lparr>AssignTime := Some 2\<rparr>"]
  note c = JobExpire_cases [where s = example_running and i = "''h''" and now = 9
      and job = "(example_index ''h'' Job_RUNNING (Some 1))\<lparr>jobIndex.OutputBuffer := Some []\<rparr>"]
  show ?thesis
    using a b c h1 h2 h3 d1 d2 by (simp add: example_index_def example_pb_def)
qed

text \<open>
  C3 as stated fails: the WAITING job \<open>a\<close> is still WAITING after \<open>JobExpire\<close>, in the index
  and in the store, and no error is stored.
\<close>

theorem JobExpire_waiting_stays_waiting:
  "map_option jobIndex.State (txn_First example_waiting ''a'') = Some Job_WAITING
   \<and> map_option pbJob.State (db example_waiting ''a'') = Some Job_WAITING
   \<and> fst (JobExpire 9 ''a'' example_waiting) = None
   \<and> map_option jobIndex.State (txn_First (snd (JobExpire 9 ''a'' example_waiting)) ''a'') = Some Job_WAITING
   \<and> map_option pbJob.State (db (snd (JobExpire 9 ''a'' example_waiting)) ''a'') = Some Job_WAITING
   \<and> map_option Error (db (snd (JobExpire 9 ''a'' example_waiting)) ''a'') = Some None"
  by (simp add: JobExpire_def jobCancel_def jobReadAndUpdate_def jobById_def dbGet_def dbPut_def
        txn_First_def txn_Insert_def insert_by_id_def replace_by_id_def example_waiting_def example_index_def
        example_pb_def pbJob_zero_def Let_def)

subsection \<open>JobComplete\<close>

text \<open>
  C6. For a persisted job in state RUNNING, \<open>JobComplete\<close> succeeds; the state becomes
  SUCCESS when \<open>cerr\<close> is nil and ERROR otherwise, in the index and in the store; the
  stored record takes the result and \<open>CompleteTime = now\<close>, and with an error also the
  status of that error; the state timer is stopped and the field cleared; the scope of
  the job is cleared in the tracker.
\<close>

theorem JobComplete_running:
  "txn_First s i = Some job \<and> jobIndex.State job = Job_RUNNING \<and> db s i = Some p \<longrightarrow>
     fst (JobComplete now i result cerr s) = None
     \<and> txn_First (snd (JobComplete now i result cerr s)) i =
         Some (job\<lparr>jobIndex.State := (case cerr of None \<Rightarrow> Job_SUCCESS | Some e \<Rightarrow> Job_ERROR),
                   StateTimer := None\<rparr>)
     \<and> db (snd (JobComplete now i result cerr s)) i =
         Some (case cerr of
                 None \<Rightarrow> p\<lparr>pbJob.State := Job_SUCCESS, Result := result, CompleteTime := Some now\<rparr>
               | Some e \<Rightarrow> p\<lparr>pbJob.State := Job_ERROR, Result := result, CompleteTime := Some now,
                              Error := Some (status_FromError e)\<rparr>)
     \<and> assigned (snd (JobComplete now i result cerr s)) = (assigned s)(job_scope job := None)
     \<and> timers (snd (JobComplete now i result cerr s)) =
         (case StateTimer job of
            None \<Rightarrow> timers s
          | Some h \<Rightarrow> (case timers s h of
                         None \<Rightarrow> timers s
                       | Some t \<Rightarrow> (timers s)(h \<mapsto> t\<lparr>Active := False\<rparr>)))"
proof (intro impI)
  assume a: "txn_First s i = Some job \<and> jobIndex.State job = Job_RUNNING \<and> db s i = Some p"
  then have id: "jobIndex.Id job = i" by (blast dest: txn_First_Id)
  have u: "\<And>f. jobReadAndUpdate i f (jobAssignedSet s job False) =
      Inr (f p, (jobAssignedSet s job False)\<lparr>db := (db (jobAssignedSet s job False))(i \<mapsto> f p)\<rparr>)"
    using a by (simp add: jobReadAndUpdate_Some)
  have 1: "fst (JobComplete now i result cerr s) = None"
    using a id
    by (simp add: JobComplete_def u Let_def jobIndex_End_def split: option.splits prod.splits)
  have 2: "txn_First (snd (JobComplete now i result cerr s)) i =
         Some (job\<lparr>jobIndex.State := (case cerr of None \<Rightarrow> Job_SUCCESS | Some e \<Rightarrow> Job_ERROR),
                   StateTimer := None\<rparr>)"
    using a id
    by (auto simp: JobComplete_def u Let_def jobIndex_End_def txn_First_txn_Insert
             StateTimer_None_update
             split: option.splits prod.splits)
  have 3: "db (snd (JobComplete now i result cerr s)) i =
         Some (case cerr of
                 None \<Rightarrow> p\<lparr>pbJob.State := Job_SUCCESS, Result := result, CompleteTime := Some now\<rparr>
               | Some e \<Rightarrow> p\<lparr>pbJob.State := Job_ERROR, Result := result, CompleteTime := Some now,
                              Error := Some (status_FromError e)\<rparr>)"
    using a id
    by (auto simp: JobComplete_def u Let_def jobIndex_End_def split: option.splits prod.splits)
  have 4: "assigned (snd (JobComplete now i result cerr s)) = (assigned s)(job_scope job := None)"
    using a id
    by (auto simp: JobComplete_def u Let_def jobIndex_End_def assigned_jobAssignedSet
             split: option.splits prod.splits)
  have 5: "timers (snd (JobComplete now i result cerr s)) =
         (case StateTimer job of
            None \<Rightarrow> timers s
          | Some h \<Rightarrow> (case timers s h of
                         None \<Rightarrow> timers s
                       | Some t \<Rightarrow> (timers s)(h \<mapsto> t\<lparr>Active := False\<rparr>)))"
    using a id
    by (auto simp: JobComplete_def u Let_def jobIndex_End_def timers_Timer_Stop
             split: option.splits prod.splits)
  show "fst (JobComplete now i result cerr s) = None
     \<and> txn_First (snd (JobComplete now i result cerr s)) i =
         Some (job\<lparr>jobIndex.State := (case cerr of None \<Rightarrow> Job_SUCCESS | Some e \<Rightarrow> Job_ERROR),
                   StateTimer := None\<rparr>)
     \<and> db (snd (JobComplete now i result cerr s)) i =
         Some (case cerr of
                 None \<Rightarrow> p\<lparr>pbJob.State := Job_SUCCESS, Result := result, CompleteTime := Some now\<rparr>
               | Some e \<Rightarrow> p\<lparr>pbJob.State := Job_ERROR, Result := result, CompleteTime := Some now,
                              Error := Some (status_FromError e)\<rparr>)
     \<and> assigned (snd (JobComplete now i result cerr s)) = (assigned s)(job_scope job := None)
     \<and> timers (snd (JobComplete now i result cerr s)) =
         (case StateTimer job of
            None \<Rightarrow> timers s
          | Some h \<Rightarrow> (case timers s h of
                         None \<Rightarrow> timers s
                       | Some t \<Rightarrow> (timers s)(h \<mapsto> t\<lparr>Active := False\<rparr>)))"
    using 1 2 3 4 5 by simp
qed

theorem JobComplete_running_witness:
  "txn_First example_running ''h'' =
        Some ((example_index ''h'' Job_RUNNING (Some 1))\<lparr>jobIndex.OutputBuffer := Some []\<rparr>)
   \<and> fst (JobComplete 9 ''h'' (Some ''ok'') None example_running) = None
   \<and> txn_First (snd (JobComplete 9 ''h'' (Some ''ok'') None example_running)) ''h'' =
        Some ((example_index ''h'' Job_SUCCESS None)\<lparr>jobIndex.OutputBuffer := Some []\<rparr>)
   \<and> db (snd (JobComplete 9 ''h'' (Some ''ok'') None example_running)) ''h'' =
        Some ((example_pb ''h'' Job_SUCCESS)\<lparr>AssignTime := Some 2, AckTime := Some 3,
                CompleteTime := Some 9, Result := Some ''ok''\<rparr>)
   \<and> assigned (snd (JobComplete 9 ''h'' (Some ''ok'') None example_running))
        (Some (''proj'', ''X''), Some ''W'') = None
   \<and> timers (snd (JobComplete 9 ''h'' (Some ''ok'') None example_running)) 1 =
        Some \<lparr>Callback = CB_JobCancel ''h'' True, Deadline = 3 + jobHeartbeatTimeout, Active = False\<rparr>
   \<and> txn_First (snd (JobComplete 9 ''h'' None (Some (fmt_Errorf ''boom'')) example_running)) ''h'' =
        Some ((example_index ''h'' Job_ERROR None)\<lparr>jobIndex.OutputBuffer := Some []\<rparr>)
   \<and> db (snd (JobComplete 9 ''h'' None (Some (fmt_Errorf ''boom'')) example_running)) ''h'' =
        Some ((example_pb ''h'' Job_ERROR)\<lparr>AssignTime := Some 2, AckTime := Some 3,
                CompleteTime := Some 9, Error := Some \<lparr>Code = Unknown, Message = ''boom''\<rparr>\<rparr>)"
proof -
  have h1: "txn_First example_running ''h'' =
      Some ((example_index ''h'' Job_RUNNING (Some 1))\<lparr>jobIndex.OutputBuffer := Some []\<rparr>)"
    by (simp add: txn_First_def example_running_def example_index_def)
  have h3: "db example_running ''h'' =
      Some ((example_pb ''h'' Job_RUNNING)\<lparr>AssignTime := Some 2, AckTime := Some 3\<rparr>)"
    by (simp add: example_running_def)
  have h4: "timers example_running 1 =
      Some \<lparr>Callback = CB_JobCancel ''h'' True, Deadline = 3 + jobHeartbeatTimeout, Active = True\<rparr>"
    by (simp add: example_running_def)
  have h5: "assigned example_running = [(Some (''proj'', ''X''), Some ''W'') \<mapsto> ''h'']"
    by (simp add: example_running_def)
  note a = JobComplete_running [where s = example_running and i = "''h''" and now = 9
      and job = "(example_index ''h'' Job_RUNNING (Some 1))\<lparr>jobIndex.OutputBuffer := Some []\<rparr>"
      and p = "(example_pb ''h'' Job_RUNNING)\<lparr>AssignTime := Some 2, AckTime := Some 3\<rparr>"
      and result = "Some ''ok''" and cerr = None]
  note b = JobComplete_running [where s = example_running and i = "''h''" and now = 9
      and job = "(example_index ''h'' Job_RUNNING (Some 1))\<lparr>jobIndex.OutputBuffer := Some []\<rparr>"
      and p = "(example_pb ''h'' Job_RUNNING)\<lparr>AssignTime := Some 2, AckTime := Some 3\<rparr>"
      and result = None and cerr = "Some (fmt_Errorf ''boom'')"]
  show ?thesis
    using a b h1 h3 h4 h5 by (simp add: example_index_def example_pb_def pbJob_zero_def job_scope_def)
qed

subsection \<open>Illegal transitions\<close>

text \<open>
  C7. \<open>JobAck\<close> on a job that is not WAITING and \<open>JobComplete\<close> on a job that is not RUNNING
  return FailedPrecondition with a message that names the current state, and leave the
  whole state, so also the stored record, as it was. After \<open>JobAck(id, false)\<close> on a
  persisted WAITING job the job is QUEUED, and a second \<open>JobAck(id, false)\<close> returns
  FailedPrecondition naming QUEUED.
\<close>

theorem FailedPrecondition_keeps_state:
  "(txn_First s i = Some job \<and> jobIndex.State job \<noteq> Job_WAITING \<longrightarrow>
      JobAck now i ack s =
        (Inl (status_Errorf FailedPrecondition
               (''job can't be acked from state: '' @ Job_State_String (jobIndex.State job))), s))
   \<and> (txn_First s i = Some job \<and> jobIndex.State job \<noteq> Job_RUNNING \<longrightarrow>
      JobComplete now i result cerr s =
        (Some (status_Errorf FailedPrecondition
                (''job can't be completed from state: '' @ Job_State_String (jobIndex.State job))), s))
   \<and> (txn_First s i = Some job \<and> jobIndex.State job = Job_WAITING \<and> db s i = Some p \<longrightarrow>
      \<not> isl (fst (JobAck now i False s))
      \<and> map_option jobIndex.State (txn_First (snd (JobAck now i False s)) i) = Some Job_QUEUED
      \<and> JobAck now' i False (snd (JobAck now i False s)) =
          (Inl (status_Errorf FailedPrecondition ''job can't be acked from state: QUEUED''),
           snd (JobAck now i False s)))"
proof (intro conjI impI)
  assume "txn_First s i = Some job \<and> jobIndex.State job \<noteq> Job_WAITING"
  then show "JobAck now i ack s =
        (Inl (status_Errorf FailedPrecondition
               (''job can't be acked from state: '' @ Job_State_String (jobIndex.State job))), s)"
    by (simp add: JobAck_def)
next
  assume "txn_First s i = Some job \<and> jobIndex.State job \<noteq> Job_RUNNING"
  then show "JobComplete now i result cerr s =
        (Some (status_Errorf FailedPrecondition
                (''job can't be completed from state: '' @ Job_State_String (jobIndex.State job))), s)"
    by (simp add: JobComplete_def Let_def)
next
  assume a: "txn_First s i = Some job \<and> jobIndex.State job = Job_WAITING \<and> db s i = Some p"
  then show "\<not> isl (fst (JobAck now i False s))"
    by (simp add: JobAck_nack_result(1))
  from a have first: "txn_First (snd (JobAck now i False s)) i =
      Some (job\<lparr>jobIndex.State := Job_QUEUED, StateTimer := Some (nextTimer s)\<rparr>)"
    by (simp add: JobAck_nack_result(2))
  then show "map_option jobIndex.State (txn_First (snd (JobAck now i False s)) i) = Some Job_QUEUED"
    by simp
  from first show "JobAck now' i False (snd (JobAck now i False s)) =
          (Inl (status_Errorf FailedPrecondition ''job can't be acked from state: QUEUED''),
           snd (JobAck now i False s))"
    by (simp add: JobAck_def)
qed

theorem FailedPrecondition_keeps_state_witness:
  "txn_First example_waiting ''a'' = Some (example_index ''a'' Job_WAITING (Some 0))
   \<and> JobComplete 5 ''a'' None None example_waiting =
        (Some (status_Errorf FailedPrecondition ''job can't be completed from state: WAITING''),
         example_waiting)
   \<and> JobAck 7 ''a'' True (snd (JobAck 5 ''a'' False example_waiting)) =
        (Inl (status_Errorf FailedPrecondition ''job can't be acked from state: QUEUED''),
         snd (JobAck 5 ''a'' False example_waiting))
   \<and> \<not> isl (fst (JobAck 5 ''a'' False example_waiting))
   \<and> JobAck 6 ''a'' False (snd (JobAck 5 ''a'' False example_waiting)) =
        (Inl (status_Errorf FailedPrecondition ''job can't be acked from state: QUEUED''),
         snd (JobAck 5 ''a'' False example_waiting))"
proof -
  have h1: "txn_First example_waiting ''a'' = Some (example_index ''a'' Job_WAITING (Some 0))"
    by (simp add: txn_First_def example_waiting_def example_index_def)
  have h2: "jobIndex.State (example_index ''a'' Job_WAITING (Some 0)) = Job_WAITING"
    by (simp add: example_index_def)
  have h3: "db example_waiting ''a'' = Some ((example_pb ''a'' Job_WAITING)\<lparr>AssignTime := Some 2\<rparr>)"
    by (simp add: example_waiting_def)
  have h4: "txn_First (snd (JobAck 5 ''a'' False example_waiting)) ''a'' =
      Some ((example_index ''a'' Job_WAITING (Some 0))\<lparr>jobIndex.State := Job_QUEUED, StateTimer := Some 1\<rparr>)"
    using JobAck_nack_result(2) [OF h1 h2 h3, of 5] by (simp add: example_waiting_def)
  note a = FailedPrecondition_keeps_state [where s = example_waiting and i = "''a''"
      and job = "example_index ''a'' Job_WAITING (Some 0)" and now = 5 and result = None
      and cerr = None and p = "(example_pb ''a'' Job_WAITING)\<lparr>AssignTime := Some 2\<rparr>" and now' = 6]
  note b = FailedPrecondition_keeps_state [where s = "snd (JobAck 5 ''a'' False example_waiting)" and i = "''a''"
      and job = "(example_index ''a'' Job_WAITING (Some 0))\<lparr>jobIndex.State := Job_QUEUED, StateTimer := Some 1\<rparr>"
      and now = 7 and ack = True]
  show ?thesis
    using a b h1 h2 h3 h4 by simp
qed

subsection \<open>JobHeartbeat\<close>

text \<open>
  C8. \<open>JobHeartbeat\<close> returns NotFound for an id that is not in the table. For a job that is
  not RUNNING it returns success and the state is unchanged. For a RUNNING job with its
  heartbeat timer it returns success and re-arms that timer to fire \<open>jobHeartbeatTimeout\<close>
  from now; the store, the index records and the scope tracker are unchanged.
\<close>

theorem JobHeartbeat_cases:
  "(txn_First s i = None \<longrightarrow>
      JobHeartbeat now i s = (Some (status_Errorf NotFound (''job not found: '' @ i)), s))
   \<and> (txn_First s i = Some job \<and> jobIndex.State job \<noteq> Job_RUNNING \<longrightarrow>
      JobHeartbeat now i s = (None, s))
   \<and> (txn_First s i = Some job \<and> jobIndex.State job = Job_RUNNING \<and> StateTimer job = Some h
        \<and> timers s h = Some t \<longrightarrow>
      JobHeartbeat now i s =
        (None, s\<lparr>timers := (timers s)(h \<mapsto> t\<lparr>Deadline := now + jobHeartbeatTimeout, Active := True\<rparr>)\<rparr>)
      \<and> db (snd (JobHeartbeat now i s)) = db s
      \<and> inmem (snd (JobHeartbeat now i s)) = inmem s
      \<and> assigned (snd (JobHeartbeat now i s)) = assigned s)"
  by (simp add: JobHeartbeat_def jobHeartbeat_def Timer_Reset_def)

theorem JobHeartbeat_cases_witness:
  "txn_First example_empty ''x'' = None
   \<and> JobHeartbeat 9 ''x'' example_empty = (Some (status_Errorf NotFound (''job not found: '' @ ''x'')), example_empty)
   \<and> txn_First example_waiting ''a'' = Some (example_index ''a'' Job_WAITING (Some 0))
   \<and> JobHeartbeat 9 ''a'' example_waiting = (None, example_waiting)
   \<and> txn_First example_running ''h'' = Some ((example_index ''h'' Job_RUNNING (Some 1))\<lparr>jobIndex.OutputBuffer := Some []\<rparr>)
   \<and> timers example_running 1 = Some \<lparr>Callback = CB_JobCancel ''h'' True, Deadline = 3 + jobHeartbeatTimeout, Active = True\<rparr>
   \<and> JobHeartbeat 9 ''h'' example_running =
        (None, example_running\<lparr>timers := (timers example_running)
           (1 \<mapsto> \<lparr>Callback = CB_JobCancel ''h'' True, Deadline = 9 + jobHeartbeatTimeout, Active = True\<rparr>)\<rparr>)
   \<and> db (snd (JobHeartbeat 9 ''h'' example_running)) = db example_running
   \<and> inmem (snd (JobHeartbeat 9 ''h'' example_running)) = inmem example_running"
proof -
  have h1: "txn_First example_empty ''x'' = None"
    by (simp add: txn_First_def example_empty_def)
  have h2: "txn_First example_waiting ''a'' = Some (example_index ''a'' Job_WAITING (Some 0))"
    by (simp add: txn_First_def example_waiting_def example_index_def)
  have h3: "txn_First example_running ''h'' =
      Some ((example_index ''h'' Job_RUNNING (Some 1))\<lparr>jobIndex.OutputBuffer := Some []\<rparr>)"
    by (simp add: txn_First_def example_running_def example_index_def)
  have h4: "timers example_running 1 =
      Some \<lparr>Callback = CB_JobCancel ''h'' True, Deadline = 3 + jobHeartbeatTimeout, Active = True\<rparr>"
    by (simp add: example_running_def)
  have s: "jobIndex.State (example_index ''a'' Job_WAITING (Some 0)) = Job_WAITING"
    "jobIndex.State ((example_index ''h'' Job_RUNNING (Some 1))\<lparr>jobIndex.OutputBuffer := Some []\<rparr>) = Job_RUNNING"
    "StateTimer ((example_index ''h'' Job_RUNNING (Some 1))\<lparr>jobIndex.OutputBuffer := Some []\<rparr>) = Some 1"
    by (simp_all add: example_index_def)
  note a = JobHeartbeat_cases [where s = example_empty and i = "''x''" and now = 9]
  note b = JobHeartbeat_cases [where s = example_waiting and i = "''a''" and now = 9
      and job = "example_index ''a'' Job_WAITING (Some 0)"]
  note c = JobHeartbeat_cases [where s = example_running and i = "''h''" and now = 9 and h = 1
      and job = "(example_index ''h'' Job_RUNNING (Some 1))\<lparr>jobIndex.OutputBuffer := Some []\<rparr>"
      and t = "\<lparr>Callback = CB_JobCancel ''h'' True, Deadline = 3 + jobHeartbeatTimeout, Active = True\<rparr>"]
  show ?thesis
    using a b c h1 h2 h3 h4 s by simp
qed

subsection \<open>JobCreate\<close>

text \<open>
  C5, as amended. When \<open>TargetRunner\<close> is set to a known variant, \<open>JobCreate\<close> succeeds
  whatever the other fields of the input are: the persisted record is the input with
  \<open>State = QUEUED\<close> and \<open>QueueTime = now\<close>, and the index record of the job is QUEUED with
  that queue time and no timer. When \<open>TargetRunner\<close> is nil, or its target is of no known
  variant, \<open>JobCreate\<close> fails and the state is unchanged (nothing persisted, nothing
  indexed); the error is made by \<open>fmt.Errorf\<close>, so it carries no status code (its code
  reads as Unknown).
\<close>

theorem JobCreate_cases:
  "(TargetRunner j = Some tr \<and> Target tr = Some v \<longrightarrow>
      fst (JobCreate now j s) = None
      \<and> db (snd (JobCreate now j s)) (pbJob.Id j) =
          Some (j\<lparr>pbJob.State := Job_QUEUED, pbJob.QueueTime := Some now\<rparr>)
      \<and> txn_First (snd (JobCreate now j s)) (pbJob.Id j) =
          Some \<lparr>jobIndex.Id = pbJob.Id j, OpType = map_option fst (Operation j),
                 jobIndex.Application = pbJob.Application j, jobIndex.Workspace = pbJob.Workspace j,
                 jobIndex.QueueTime = now,
                 TargetAny = (case v of Ref_Runner_Any \<Rightarrow> True | Ref_Runner_Id r \<Rightarrow> False),
                 TargetRunnerId = (case v of Ref_Runner_Any \<Rightarrow> [] | Ref_Runner_Id r \<Rightarrow> r),
                 jobIndex.State = Job_QUEUED, StateTimer = None, jobIndex.OutputBuffer = None\<rparr>)
   \<and> (TargetRunner j = None \<longrightarrow>
      JobCreate now j s = (Some (fmt_Errorf ''job target runner must be set''), s)
      \<and> status_Code (fmt_Errorf ''job target runner must be set'') = Unknown)
   \<and> (TargetRunner j = Some tr \<and> Target tr = None \<longrightarrow>
      JobCreate now j s = (Some (fmt_Errorf ''unknown runner target value: <nil>''), s)
      \<and> status_Code (fmt_Errorf ''unknown runner target value: <nil>'') = Unknown)"
proof (intro conjI impI)
  assume a: "TargetRunner j = Some tr \<and> Target tr = Some v"
  then show "fst (JobCreate now j s) = None"
    by (cases v)
       (simp_all add: JobCreate_def jobCreate_def jobIndexSet_def Let_def split: option.splits)
  from a show "db (snd (JobCreate now j s)) (pbJob.Id j) =
          Some (j\<lparr>pbJob.State := Job_QUEUED, pbJob.QueueTime := Some now\<rparr>)"
    by (cases v)
       (simp_all add: JobCreate_def jobCreate_def jobIndexSet_def Let_def dbPut_def
          time_AfterFunc_def split: option.splits)
  from a show "txn_First (snd (JobCreate now j s)) (pbJob.Id j) =
          Some \<lparr>jobIndex.Id = pbJob.Id j, OpType = map_option fst (Operation j),
                 jobIndex.Application = pbJob.Application j, jobIndex.Workspace = pbJob.Workspace j,
                 jobIndex.QueueTime = now,
                 TargetAny = (case v of Ref_Runner_Any \<Rightarrow> True | Ref_Runner_Id r \<Rightarrow> False),
                 TargetRunnerId = (case v of Ref_Runner_Any \<Rightarrow> [] | Ref_Runner_Id r \<Rightarrow> r),
                 jobIndex.State = Job_QUEUED, StateTimer = None, jobIndex.OutputBuffer = None\<rparr>"
    by (cases v)
       (simp_all add: JobCreate_def jobCreate_def jobIndexSet_def Let_def txn_First_txn_Insert
          split: option.splits)
next
  assume "TargetRunner j = None"
  then show "JobCreate now j s = (Some (fmt_Errorf ''job target runner must be set''), s)"
    by (simp add: JobCreate_def jobCreate_def jobIndexSet_def Let_def)
next
  show "status_Code (fmt_Errorf ''job target runner must be set'') = Unknown"
    by (simp add: status_Code_def)
next
  assume "TargetRunner j = Some tr \<and> Target tr = None"
  then show "JobCreate now j s = (Some (fmt_Errorf ''unknown runner target value: <nil>''), s)"
    by (simp add: JobCreate_def jobCreate_def jobIndexSet_def Let_def)
next
  show "status_Code (fmt_Errorf ''unknown runner target value: <nil>'') = Unknown"
    by (simp add: status_Code_def)
qed

theorem JobCreate_cases_witness:
  "fst (JobCreate 7 ((example_pb ''n'' Job_SUCCESS)\<lparr>pbJob.QueueTime := Some 3\<rparr>) example_queued) = None
   \<and> db (snd (JobCreate 7 ((example_pb ''n'' Job_SUCCESS)\<lparr>pbJob.QueueTime := Some 3\<rparr>) example_queued)) ''n'' =
        Some ((example_pb ''n'' Job_QUEUED)\<lparr>pbJob.QueueTime := Some 7\<rparr>)
   \<and> txn_First (snd (JobCreate 7 ((example_pb ''n'' Job_SUCCESS)\<lparr>pbJob.QueueTime := Some 3\<rparr>) example_queued)) ''n'' =
        Some ((example_index ''n'' Job_QUEUED None)\<lparr>jobIndex.QueueTime := 7\<rparr>)
   \<and> JobCreate 7 ((example_pb ''n'' Job_QUEUED)\<lparr>TargetRunner := None\<rparr>) example_queued =
        (Some (fmt_Errorf ''job target runner must be set''), example_queued)
   \<and> JobCreate 7 ((example_pb ''n'' Job_QUEUED)\<lparr>TargetRunner := Some \<lparr>Target = None\<rparr>\<rparr>) example_queued =
        (Some (fmt_Errorf ''unknown runner target value: <nil>''), example_queued)"
proof -
  note a = JobCreate_cases [where j = "(example_pb ''n'' Job_SUCCESS)\<lparr>pbJob.QueueTime := Some 3\<rparr>"
      and tr = "\<lparr>Target = Some Ref_Runner_Any\<rparr>" and v = Ref_Runner_Any and now = 7
      and s = example_queued]
  note b = JobCreate_cases [where j = "(example_pb ''n'' Job_QUEUED)\<lparr>TargetRunner := None\<rparr>" and now = 7
      and s = example_queued]
  note c = JobCreate_cases [where j = "(example_pb ''n'' Job_QUEUED)\<lparr>TargetRunner := Some \<lparr>Target = None\<rparr>\<rparr>"
      and tr = "\<lparr>Target = None\<rparr>" and now = 7 and s = example_queued]
  show ?thesis
    using a b c by (simp add: example_pb_def example_index_def pbJob_zero_def)
qed

text \<open>
  C5 as stated fails: the error of a create without target runner is not an
  InvalidArgument error.
\<close>

theorem JobCreate_error_not_InvalidArgument:
  "TargetRunner (pbJob_zero\<lparr>pbJob.Id := ''n''\<rparr>) = None
   \<and> fst (JobCreate 7 (pbJob_zero\<lparr>pbJob.Id := ''n''\<rparr>) example_empty) =
        Some (fmt_Errorf ''job target runner must be set'')
   \<and> status_Code (fmt_Errorf ''job target runner must be set'') \<noteq> InvalidArgument"
  by (simp add: JobCreate_def jobCreate_def jobIndexSet_def Let_def pbJob_zero_def status_Code_def)

subsection \<open>Fairness of JobAssignForRunner\<close>

text \<open>
  C9. Let the table have unique ids, the runner accept untargeted jobs, and both candidate
  queries return a job: \<open>a\<close> targeted at the runner and \<open>b\<close> for any runner. Then the pass
  assigns and returns \<open>b\<close> when the queue time of \<open>b\<close> is strictly earlier than that of \<open>a\<close>,
  and \<open>a\<close> otherwise (so the targeted job when the times are equal), provided the chosen
  job is persisted: the job returned is the chosen one, now WAITING with a waiting timer,
  and its scope is recorded as assigned to it.
\<close>

theorem JobAssignForRunner_earlier_candidate:
  "distinct (map jobIndex.Id (inmem s)) \<and> \<not> ByIdOnly r
   \<and> jobCandidateById s r = Some a \<and> jobCandidateAny s r = Some b
   \<and> c = (if jobIndex.QueueTime b < jobIndex.QueueTime a then b else a)
   \<and> db s (jobIndex.Id c) = Some p \<longrightarrow>
     fst (JobAssignForRunner now r s) =
       Inr (Some (jobIndex_Job (c\<lparr>jobIndex.State := Job_WAITING, StateTimer := Some (nextTimer s)\<rparr>)
                    (p\<lparr>pbJob.State := Job_WAITING, AssignTime := Some now\<rparr>)))
     \<and> txn_First (snd (JobAssignForRunner now r s)) (jobIndex.Id c) =
         Some (c\<lparr>jobIndex.State := Job_WAITING, StateTimer := Some (nextTimer s)\<rparr>)
     \<and> assigned (snd (JobAssignForRunner now r s)) (job_scope c) = Some (jobIndex.Id c)"
proof (intro impI)
  assume h: "distinct (map jobIndex.Id (inmem s)) \<and> \<not> ByIdOnly r
   \<and> jobCandidateById s r = Some a \<and> jobCandidateAny s r = Some b
   \<and> c = (if jobIndex.QueueTime b < jobIndex.QueueTime a then b else a)
   \<and> db s (jobIndex.Id c) = Some p"
  then have d: "distinct (map jobIndex.Id (inmem s))" by blast
  from h have nb: "\<not> ByIdOnly r" by blast
  from h have ca: "jobCandidateById s r = Some a" by blast
  from h have cb: "jobCandidateAny s r = Some b" by blast
  from h have c: "c = (if jobIndex.QueueTime b < jobIndex.QueueTime a then b else a)" by blast
  from h have p: "db s (jobIndex.Id c) = Some p" by blast
  note pa = candidate_by_id_props [OF ca]
  note pb = candidate_any_props [OF cb]
  have c1: "txn_First s (jobIndex.Id c) = Some c"
    using c d pa(1) pb(1) by (simp add: txn_First_distinct)
  have c2: "jobIndex.State c = Job_QUEUED" using c pa(2) pb(2) by simp
  have c3: "\<not> jobIsBlocked s c" using c pa(3) pb(3) by simp
  define cs where "cs = [if jobIndex.QueueTime b < jobIndex.QueueTime a then a else b]"
  have run: "JobAssignForRunner now r s = assign_candidates now s (c # cs)"
    using nb ca cb
    by (simp add: JobAssignForRunner_def sort_Slice_two c cs_def del: assign_candidates.simps)
  note r = assign_candidates_first [OF c1 c2 c3 p, of now cs]
  show "fst (JobAssignForRunner now r s) =
       Inr (Some (jobIndex_Job (c\<lparr>jobIndex.State := Job_WAITING, StateTimer := Some (nextTimer s)\<rparr>)
                    (p\<lparr>pbJob.State := Job_WAITING, AssignTime := Some now\<rparr>)))
     \<and> txn_First (snd (JobAssignForRunner now r s)) (jobIndex.Id c) =
         Some (c\<lparr>jobIndex.State := Job_WAITING, StateTimer := Some (nextTimer s)\<rparr>)
     \<and> assigned (snd (JobAssignForRunner now r s)) (job_scope c) = Some (jobIndex.Id c)"
    by (simp only: run r simp_thms)
qed

theorem JobAssignForRunner_earlier_candidate_witness:
  "jobCandidateById example_two_candidates example_runner = Some (example_targeted 2)
   \<and> jobCandidateAny example_two_candidates example_runner = Some (example_index ''e'' Job_QUEUED None)
   \<and> fst (JobAssignForRunner 9 example_runner example_two_candidates) =
        Inr (Some (jobIndex_Job (example_index ''e'' Job_WAITING (Some 0))
                     ((example_pb ''e'' Job_WAITING)\<lparr>AssignTime := Some 9\<rparr>)))
   \<and> jobCandidateById example_tie example_runner = Some (example_targeted 1)
   \<and> jobCandidateAny example_tie example_runner = Some (example_index ''e'' Job_QUEUED None)
   \<and> txn_First (snd (JobAssignForRunner 9 example_runner example_tie)) ''f'' =
        Some ((example_targeted 1)\<lparr>jobIndex.State := Job_WAITING, StateTimer := Some 0\<rparr>)
   \<and> txn_First (snd (JobAssignForRunner 9 example_runner example_tie)) ''e'' =
        Some (example_index ''e'' Job_QUEUED None)"
proof -
  have c1: "jobCandidateById example_two_candidates example_runner = Some (example_targeted 2)"
    by (simp add: jobCandidateById_def LowerBound_target_id_def target_id_key_def to_lower_def
          jobIsBlocked_def example_two_candidates_def example_tie_def example_candidates_def example_index_def example_targeted_def
          example_runner_def)
  have c2: "jobCandidateAny example_two_candidates example_runner = Some (example_index ''e'' Job_QUEUED None)"
    by (simp add: jobCandidateAny_def LowerBound_queue_time_def queue_time_key_def
          jobIsBlocked_def example_two_candidates_def example_tie_def example_candidates_def example_index_def example_targeted_def)
  have c3: "jobCandidateById example_tie example_runner = Some (example_targeted 1)"
    by (simp add: jobCandidateById_def LowerBound_target_id_def target_id_key_def to_lower_def
          jobIsBlocked_def example_two_candidates_def example_tie_def example_candidates_def example_index_def
          example_targeted_def example_runner_def)
  have c4: "jobCandidateAny example_tie example_runner = Some (example_index ''e'' Job_QUEUED None)"
    by (simp add: jobCandidateAny_def LowerBound_queue_time_def queue_time_key_def
          jobIsBlocked_def example_two_candidates_def example_tie_def example_candidates_def example_index_def
          example_targeted_def)
  have d: "distinct (map jobIndex.Id (inmem example_two_candidates))"
    "distinct (map jobIndex.Id (inmem example_tie))"
    by (simp_all add: example_two_candidates_def example_tie_def example_candidates_def example_index_def
          example_targeted_def)
  have n: "\<not> ByIdOnly example_runner"
    by (simp add: example_runner_def)
  have p: "db example_two_candidates ''e'' = Some (example_pb ''e'' Job_QUEUED)"
    "db example_tie ''f'' = Some ((example_pb ''f'' Job_QUEUED)\<lparr>pbJob.Workspace := Some ''V'',
        TargetRunner := Some \<lparr>Target = Some (Ref_Runner_Id ''R'')\<rparr>, pbJob.QueueTime := Some 1\<rparr>)"
    by (simp_all add: example_two_candidates_def example_tie_def example_candidates_def)
  have t: "nextTimer example_two_candidates = 0" "nextTimer example_tie = 0"
    by (simp_all add: example_two_candidates_def example_tie_def example_candidates_def)
  have run: "JobAssignForRunner 9 example_runner example_tie =
      assign_candidates 9 example_tie [example_targeted 1, example_index ''e'' Job_QUEUED None]"
    using n
    by (simp add: JobAssignForRunner_def sort_Slice_two c3 c4 example_targeted_def
          example_index_def del: assign_candidates.simps)
  have other: "txn_First (snd (JobAssignForRunner 9 example_runner example_tie)) ''e'' =
        Some (example_index ''e'' Job_QUEUED None)"
    unfolding run
    by (simp add: example_targeted_def
          example_index_def example_two_candidates_def example_tie_def example_candidates_def txn_First_def
          jobIsBlocked_def job_scope_def jobReadAndUpdate_def jobById_def dbGet_def dbPut_def
          time_AfterFunc_def txn_Insert_def insert_by_id_def replace_by_id_def assign_fields_def
          jobAssignedSet_def Let_def)
  note a = JobAssignForRunner_earlier_candidate [where s = example_two_candidates and r = example_runner
      and a = "example_targeted 2" and b = "example_index ''e'' Job_QUEUED None"
      and c = "example_index ''e'' Job_QUEUED None" and p = "example_pb ''e'' Job_QUEUED" and now = 9]
  note b = JobAssignForRunner_earlier_candidate [where s = example_tie and r = example_runner
      and a = "example_targeted 1" and b = "example_index ''e'' Job_QUEUED None"
      and c = "example_targeted 1"
      and p = "(example_pb ''f'' Job_QUEUED)\<lparr>pbJob.Workspace := Some ''V'',
        TargetRunner := Some \<lparr>Target = Some (Ref_Runner_Id ''R'')\<rparr>, pbJob.QueueTime := Some 1\<rparr>"
      and now = 9]
  show ?thesis
    using a b c1 c2 c3 c4 d n p t other
    by (simp add: example_index_def example_targeted_def example_pb_def pbJob_zero_def)
qed

end
